theory Spec2Isabelle
  imports Main "HOL-Library.Sublist"
begin

section \<open>Values, errors and module bodies\<close>

text \<open>
  JavaScript values as far as the runtime looks at them: primitives, references to plain
  objects in the object heap (\<open>VObj\<close>; two references are the same value iff the
  addresses are equal), and opaque values owned by the host (\<open>VHost\<close>: what node's own
  \<open>require\<close>, \<open>JSON.parse\<close> or a native addon hand back).
\<close>

datatype val = VUndefined | VNull | VBool bool | VNum int | VStr string | VObj nat | VHost nat

text \<open>An error object: constructor name, message, and the optional \<open>code\<close> property.\<close>

datatype error = JSError (err_name: string) (err_message: string) (err_code: "string option")

datatype 'a outcome = Returns 'a | Throws error | OutOfFuel

text \<open>
  The body of a module is arbitrary JavaScript that receives
  \<open>(module, exports, require, __dirname, __filename, global, jest)\<close>. The embedding keeps
  the statements through which a body can reach the runtime: the four entry points of its
  \<open>require\<close> function, writes to \<open>exports\<close> and \<open>module.exports\<close>, \<open>throw\<close>,
  \<open>try/catch\<close>, and the mutating operations of the \<open>jest\<close> object. An expression is a
  literal, the value of the last \<open>require\<close>-like call of the body, or a property of one.
  A mock factory is a closure: statements and a result expression.
\<close>

datatype expr = Lit val | LastResult | Prop expr string

datatype stmt =
    Require string
  | RequireActual string
  | RequireMock string
  | RequireResolve string
  | ExportsSet string expr
  | ModuleExportsSet expr
  | ThrowError string
  | TryCatch "stmt list" "stmt list"
  | JestMock string "factory option" "bool option"
  | JestUnmock string
  | JestDeepUnmock string
  | JestSetMock string expr
  | JestEnableAutomock
  | JestDisableAutomock
  | JestResetModuleRegistry
  | JestGenMockFromModule string
and factory = Factory "stmt list" expr

datatype metadata = MetaConstant val | MetaObject "(string \<times> metadata) list"

type_synonym path = string
type_synonym regex = string
type_synonym script = string
type_synonym obj = "string \<rightharpoonup> val"

section \<open>The data model\<close>

text \<open>The type \<open>Module\<close> of the runtime. The \<open>require\<close> function of a module is the
  closure of \<open>_createRequireImplementation\<close> over \<open>(from, options)\<close>.\<close>

record module_rec =
  mod_filename :: path
  mod_exports :: val
  mod_children :: "val list option"
  mod_parent :: "string option"
  mod_paths :: "path option list option"
  mod_require :: "(path \<times> bool option) option"

text \<open>What a running body (or a factory closure) has in scope: its file, the options its
  \<open>require\<close> was built with, its module object and the \<open>exports\<close> argument.\<close>

record frame =
  fr_from :: path
  fr_options :: "bool option"
  fr_module :: nat
  fr_exports :: val

text \<open>A property of the sandbox's global object: a mock function with its recorded
  calls, or anything else.\<close>

datatype gval = MockFunction nat | Plain val

text \<open>
  The mutable state. Objects live in stores indexed by address: plain objects, module
  records, and the two kinds of registry tables (\<open>Object.create(null)\<close> allocates a new
  table; \<open>this._moduleRegistry\<close> and \<open>this._mockRegistry\<close> hold addresses, so that a
  saved registry is an alias, as in the source). The remaining fields are those of
  \<open>class Runtime\<close> that its methods read, the two caches of \<open>class Resolver\<close>, the
  process-wide \<open>normalizedIDCache\<close> and \<open>unmockRegExpCache\<close> (at this configuration),
  and the sandbox's global object (\<open>None\<close> once disposed) with its \<open>mockClearTimers\<close>
  (when present, the number of times it was called).
\<close>

record state =
  nextAddr :: nat
  objects :: "nat \<Rightarrow> obj"
  moduleObjs :: "nat \<Rightarrow> module_rec"
  moduleTables :: "nat \<Rightarrow> (path \<rightharpoonup> nat)"
  mockTables :: "nat \<Rightarrow> (string \<rightharpoonup> val)"
  normalizedIDCache :: "string \<rightharpoonup> string"
  moduleNameCache :: "string \<rightharpoonup> path"
  modulePathCache :: "path \<rightharpoonup> path option list"
  moduleRegistry :: nat
  mockRegistry :: nat
  currentlyExecutingModulePath :: string
  isCurrentlyExecutingManualMock :: "string option"
  explicitShouldMock :: "string \<rightharpoonup> bool"
  mockFactories :: "string \<rightharpoonup> frame \<times> factory"
  mockMetaDataCache :: "path \<rightharpoonup> metadata option"
  shouldAutoMock :: bool
  shouldMockModuleCache :: "string \<rightharpoonup> bool"
  shouldUnmockTransitiveDependenciesCache :: "string \<rightharpoonup> bool"
  transitiveShouldMock :: "string \<rightharpoonup> bool"
  virtualMocks :: "string \<rightharpoonup> bool"
  unmockList :: "regex option"
  unmockRegExpCache :: "regex option"
  envGlobal :: "(string \<rightharpoonup> gval) option"
  mockClearTimers :: "nat option"

text \<open>
  What the two files take from outside and never change: node's \<open>path\<close> module, the
  packages \<open>resolve\<close>, \<open>browser-resolve\<close>, \<open>graceful-fs\<close>, \<open>jest-mock\<close>, the
  transformer and the sandbox (as functions, so that every theorem holds for all of them),
  the haste map with the resolver's options, and the configuration.
\<close>

record pathlib =
  path_sep :: string
  path_delimiter :: string
  path_dirname :: "path \<Rightarrow> path"
  path_basename :: "path \<Rightarrow> string"
  path_extname :: "path \<Rightarrow> string"
  path_normalize :: "path \<Rightarrow> path"
  path_join :: "string list \<Rightarrow> path"
  path_relative :: "path \<Rightarrow> path \<Rightarrow> path"

record resolve_options =
  ro_basedir :: path
  ro_extensions :: "string list"
  ro_moduleDirectory :: "string list"
  ro_paths :: "path list option"

record hostlib =
  resolve_sync :: "bool \<Rightarrow> string \<Rightarrow> resolve_options \<Rightarrow> error + path"
  resolve_isCore :: "string \<Rightarrow> bool"
  nodeModulesPaths :: "path \<Rightarrow> string list \<Rightarrow> path option list"
  require_resolve :: "path \<Rightarrow> error + path"
  nodePaths :: "path list option"
  host_require :: "string \<Rightarrow> error + val"
  fs_readFileSync :: "path \<Rightarrow> error + string"
  fs_existsSync :: "path \<Rightarrow> bool"
  JSON_parse :: "string \<Rightarrow> error + val"
  regex_test :: "regex \<Rightarrow> string \<Rightarrow> bool"
  regex_replace :: "regex \<Rightarrow> string \<Rightarrow> string \<Rightarrow> string"
  transform :: "path \<Rightarrow> bool \<Rightarrow> error + script"
  runScript :: "script \<Rightarrow> error + stmt list"
  getMetadata :: "(nat \<Rightarrow> obj) \<Rightarrow> val \<Rightarrow> metadata option"
  generateFromMetadata :: "metadata \<Rightarrow> val + obj"

datatype htype = MODULE | PACKAGE

record resolver =
  haste_map :: "string \<rightharpoonup> (string \<rightharpoonup> path \<times> htype)"
  haste_mocks :: "string \<rightharpoonup> path"
  GENERIC_PLATFORM :: string
  opt_browser :: bool
  opt_defaultPlatform :: "string option"
  opt_extensions :: "string list"
  opt_hasCoreModules :: bool
  opt_moduleDirectories :: "string list"
  opt_moduleNameMapper :: "(string \<times> regex) list option"
  opt_modulePaths :: "path list"
  supportsNativePlatform :: bool

record config =
  cfg_rootDir :: path
  cfg_automock :: bool
  cfg_setupFiles :: "path list"
  cfg_unmockedModulePathPatterns :: "string list option"
  cfg_scriptPreprocessor :: "path option"
  cfg_usesBabelJest :: bool

record sys =
  pth :: pathlib
  host :: hostlib
  rslv :: resolver
  conf :: config

section \<open>Sequencing: state, exceptions, fuel\<close>

text \<open>
  A method of the source is a function from the state to an outcome and the state it
  leaves: a thrown error keeps every mutation made before it, as in JavaScript.
\<close>

type_synonym 'a prog = "state \<Rightarrow> 'a outcome \<times> state"

definition ret :: "'a \<Rightarrow> 'a prog" where
  "ret x = (\<lambda>s. (Returns x, s))"

definition raise :: "error \<Rightarrow> 'a prog" where
  "raise e = (\<lambda>s. (Throws e, s))"

definition andThen :: "'a prog \<Rightarrow> ('a \<Rightarrow> 'b prog) \<Rightarrow> 'b prog" where
  "andThen m f = (\<lambda>s. case m s of
       (Returns x, s') \<Rightarrow> f x s'
     | (Throws e, s') \<Rightarrow> (Throws e, s')
     | (OutOfFuel, s') \<Rightarrow> (OutOfFuel, s'))"

definition tryCatch :: "'a prog \<Rightarrow> (error \<Rightarrow> 'a prog) \<Rightarrow> 'a prog" where
  "tryCatch m h = (\<lambda>s. case m s of
       (Throws e, s') \<Rightarrow> h e s'
     | r \<Rightarrow> r)"

definition gets :: "(state \<Rightarrow> 'a) \<Rightarrow> 'a prog" where
  "gets f = (\<lambda>s. (Returns (f s), s))"

definition modify :: "(state \<Rightarrow> state) \<Rightarrow> unit prog" where
  "modify f = (\<lambda>s. (Returns (), f s))"

definition liftE :: "error + 'a \<Rightarrow> 'a prog" where
  "liftE r = (case r of Inl e \<Rightarrow> raise e | Inr x \<Rightarrow> ret x)"

section \<open>JavaScript helpers\<close>

text \<open>Truthiness of a possibly absent string and of a value.\<close>

definition truthyS :: "string option \<Rightarrow> bool" where
  "truthyS x = (case x of None \<Rightarrow> False | Some s \<Rightarrow> s \<noteq> [])"

definition truthy :: "val \<Rightarrow> bool" where
  "truthy v = (case v of VUndefined \<Rightarrow> False | VNull \<Rightarrow> False | VBool b \<Rightarrow> b
     | VNum n \<Rightarrow> n \<noteq> 0 | VStr s \<Rightarrow> s \<noteq> [] | VObj a \<Rightarrow> True | VHost h \<Rightarrow> True)"

text \<open>\<open>x || ''\<close> for a string that may be \<open>null\<close>.\<close>

definition orEmpty :: "string option \<Rightarrow> string" where
  "orEmpty x = (case x of None \<Rightarrow> [] | Some s \<Rightarrow> s)"

text \<open>\<open>String.prototype.split\<close> on a one-character separator.\<close>

fun split_on :: "char \<Rightarrow> string \<Rightarrow> string list" where
  "split_on c [] = [[]]"
| "split_on c (x # xs) =
     (if x = c then [] # split_on c xs
      else (case split_on c xs of [] \<Rightarrow> [[x]] | y # ys \<Rightarrow> (x # y) # ys))"

text \<open>\<open>String.prototype.includes\<close>.\<close>

definition str_includes :: "string \<Rightarrow> string \<Rightarrow> bool" where
  "str_includes s t = sublist t s"

section \<open>The resolver (\<open>jest-resolve/src/index.js\<close>)\<close>

definition NATIVE_PLATFORM :: string where
  "NATIVE_PLATFORM = ''native''"

text \<open>\<open>Resolver.findNodeModule\<close>: every error of the node algorithm becomes \<open>null\<close>.\<close>

definition findNodeModule :: "sys \<Rightarrow> string \<Rightarrow> path \<Rightarrow> bool \<Rightarrow> string list \<Rightarrow> string list
    \<Rightarrow> path list option \<Rightarrow> path option" where
  "findNodeModule y p basedir browser extensions moduleDirectory paths =
     (case resolve_sync (host y) browser p
        \<lparr>ro_basedir = basedir, ro_extensions = extensions,
         ro_moduleDirectory = moduleDirectory,
         ro_paths = (case paths of
             Some ps \<Rightarrow> Some ((case nodePaths (host y) of None \<Rightarrow> [] | Some np \<Rightarrow> np) @ ps)
           | None \<Rightarrow> nodePaths (host y))\<rparr> of
        Inr r \<Rightarrow> Some r
      | Inl e \<Rightarrow> None)"

definition isCoreModule :: "sys \<Rightarrow> string \<Rightarrow> bool" where
  "isCoreModule y moduleName =
     (opt_hasCoreModules (rslv y) \<and> resolve_isCore (host y) moduleName)"

text \<open>\<open>getModule(name, type)\<close>: the platform preference, then the type test.\<close>

definition getModule :: "sys \<Rightarrow> string \<Rightarrow> htype option \<Rightarrow> path option" where
  "getModule y name type =
     (let type = (case type of None \<Rightarrow> MODULE | Some t \<Rightarrow> t) in
      case haste_map (rslv y) name of
        None \<Rightarrow> None
      | Some m \<Rightarrow>
          (let module0 = (case opt_defaultPlatform (rslv y) of
                   None \<Rightarrow> None
                 | Some platform \<Rightarrow> if platform = [] then None else m platform);
               module =
                 (if module0 = None \<and> m NATIVE_PLATFORM \<noteq> None \<and> supportsNativePlatform (rslv y)
                  then m NATIVE_PLATFORM
                  else if module0 = None then m (GENERIC_PLATFORM (rslv y))
                  else module0)
           in case module of
                None \<Rightarrow> None
              | Some (p, t) \<Rightarrow> if t = type then Some p else None))"

definition getPackage :: "sys \<Rightarrow> string \<Rightarrow> path option" where
  "getPackage y name = getModule y name (Some PACKAGE)"

text \<open>\<open>_resolveStubModuleName\<close>: the first regex of the name mapper that matches decides.\<close>

fun resolveStubLoop :: "sys \<Rightarrow> path \<Rightarrow> (string \<times> regex) list \<Rightarrow> string \<Rightarrow> path option" where
  "resolveStubLoop y dirname [] moduleName = None"
| "resolveStubLoop y dirname ((mappedModuleName, regex) # rest) moduleName =
     (if regex_test (host y) regex moduleName then
        (let moduleName' = regex_replace (host y) regex moduleName mappedModuleName in
         if truthyS (getModule y moduleName' None) then getModule y moduleName' None
         else findNodeModule y moduleName' dirname (opt_browser (rslv y))
                (opt_extensions (rslv y)) (opt_moduleDirectories (rslv y))
                (Some (opt_modulePaths (rslv y))))
      else resolveStubLoop y dirname rest moduleName)"

definition resolveStubModuleName :: "sys \<Rightarrow> path \<Rightarrow> string \<Rightarrow> path option" where
  "resolveStubModuleName y from moduleName =
     (case opt_moduleNameMapper (rslv y) of
        Some moduleNameMapper \<Rightarrow>
          resolveStubLoop y (path_dirname (pth y) from) moduleNameMapper moduleName
      | None \<Rightarrow> None)"

definition getMockModule :: "sys \<Rightarrow> path \<Rightarrow> string \<Rightarrow> path option" where
  "getMockModule y from name =
     (if truthyS (haste_mocks (rslv y) name) then haste_mocks (rslv y) name
      else (let moduleName = resolveStubModuleName y from name in
            if truthyS moduleName then
              (if truthyS (getModule y (the moduleName) None)
               then getModule y (the moduleName) None else moduleName)
            else None))"

text \<open>\<open>getModulePaths\<close>, memoised per directory; a trailing \<open>undefined\<close> is dropped.\<close>

definition getModulePaths :: "sys \<Rightarrow> path \<Rightarrow> path option list prog" where
  "getModulePaths y from =
     andThen (gets (\<lambda>s. modulePathCache s from)) (\<lambda>cached.
       case cached of
         Some ps \<Rightarrow> ret ps
       | None \<Rightarrow>
           (let paths0 = nodeModulesPaths (host y) from (opt_moduleDirectories (rslv y));
                paths = (if paths0 \<noteq> [] \<and> last paths0 = None then butlast paths0 else paths0)
            in andThen (modify (\<lambda>s. s\<lparr>modulePathCache := (modulePathCache s)(from \<mapsto> paths)\<rparr>))
                 (\<lambda>_. ret paths)))"

text \<open>The error of step 4 of \<open>resolveModule\<close>.\<close>

definition moduleNotFound :: "sys \<Rightarrow> path \<Rightarrow> string \<Rightarrow> error" where
  "moduleNotFound y from moduleName =
     (let relativePath = path_relative (pth y) (path_dirname (pth y) from) from in
      JSError ''Error''
        (''Cannot find module '' @ [CHR 0x27] @ moduleName @ [CHR 0x27] @ '' from '' @ [CHR 0x27]
           @ (if relativePath = [] then ''.'' else relativePath) @ [CHR 0x27])
        (Some ''MODULE_NOT_FOUND''))"

text \<open>\<open>resolveModule(from, moduleName, options)\<close>; \<open>options\<close> is \<open>None\<close> when absent,
  otherwise the value of \<open>skipNodeResolution\<close>.\<close>

definition cacheModuleName :: "string \<Rightarrow> path \<Rightarrow> path prog" where
  "cacheModuleName key m =
     andThen (modify (\<lambda>s. s\<lparr>moduleNameCache := (moduleNameCache s)(key \<mapsto> m)\<rparr>)) (\<lambda>_. ret m)"

definition resolveModule :: "sys \<Rightarrow> path \<Rightarrow> string \<Rightarrow> bool option \<Rightarrow> path prog" where
  "resolveModule y from moduleName options =
     (let dirname = path_dirname (pth y) from;
          key = dirname @ path_delimiter (pth y) @ moduleName
      in andThen (gets (\<lambda>s. moduleNameCache s key)) (\<lambda>cached.
         if truthyS cached then ret (the cached)
         else (let module1 = getModule y moduleName None in
           if truthyS module1 then cacheModuleName key (the module1)
           else (let module2 =
                   (if options = None \<or> options = Some False
                    then findNodeModule y moduleName dirname (opt_browser (rslv y))
                           (opt_extensions (rslv y)) (opt_moduleDirectories (rslv y))
                           (Some (opt_modulePaths (rslv y)))
                    else None) in
             if truthyS module2 then cacheModuleName key (the module2)
             else (case split_on CHR ''/'' moduleName of
                 [] \<Rightarrow> raise (moduleNotFound y from moduleName)
               | first # parts \<Rightarrow>
                   (let module3 = getPackage y first in
                    if truthyS module3 then
                      (case require_resolve (host y)
                              (path_join (pth y) (path_dirname (pth y) (the module3) # parts)) of
                         Inr r \<Rightarrow> cacheModuleName key r
                       | Inl ignoredError \<Rightarrow> raise (moduleNotFound y from moduleName))
                    else raise (moduleNotFound y from moduleName)))))))"

section \<open>The runtime: allocation and the methods that execute no module\<close>

text \<open>\<open>{}\<close>, a new \<open>Module\<close>, and \<open>Object.create(null)\<close> for each kind of registry.\<close>

definition newObject :: "obj \<Rightarrow> nat prog" where
  "newObject ob = (\<lambda>s. (Returns (nextAddr s),
     s\<lparr>nextAddr := Suc (nextAddr s), objects := (objects s)(nextAddr s := ob)\<rparr>))"

definition newModule :: "module_rec \<Rightarrow> nat prog" where
  "newModule m = (\<lambda>s. (Returns (nextAddr s),
     s\<lparr>nextAddr := Suc (nextAddr s), moduleObjs := (moduleObjs s)(nextAddr s := m)\<rparr>))"

definition newModuleTable :: "nat prog" where
  "newModuleTable = (\<lambda>s. (Returns (nextAddr s),
     s\<lparr>nextAddr := Suc (nextAddr s), moduleTables := (moduleTables s)(nextAddr s := Map.empty)\<rparr>))"

definition newMockTable :: "nat prog" where
  "newMockTable = (\<lambda>s. (Returns (nextAddr s),
     s\<lparr>nextAddr := Suc (nextAddr s), mockTables := (mockTables s)(nextAddr s := Map.empty)\<rparr>))"

definition NODE_MODULES :: "sys \<Rightarrow> string" where
  "NODE_MODULES y = path_sep (pth y) @ ''node_modules'' @ path_sep (pth y)"

definition typeError :: "string \<Rightarrow> error" where
  "typeError msg = JSError ''TypeError'' msg None"

text \<open>\<open>_resolveModule(from, to)\<close>.\<close>

definition Runtime_resolveModule :: "sys \<Rightarrow> path \<Rightarrow> string option \<Rightarrow> path prog" where
  "Runtime_resolveModule y from to =
     (if truthyS to then resolveModule y from (the to) None else ret from)"

text \<open>\<open>_getVirtualMockPath(from, moduleName)\<close>; \<open>moduleName[0]\<close> of the empty string is
  \<open>undefined\<close>, which differs from both characters.\<close>

definition getVirtualMockPath :: "sys \<Rightarrow> path \<Rightarrow> string \<Rightarrow> path" where
  "getVirtualMockPath y from moduleName =
     (if take 1 moduleName \<noteq> ''.'' \<and> take 1 moduleName \<noteq> ''/'' then moduleName
      else path_normalize (pth y) (path_dirname (pth y) from @ ''/'' @ moduleName))"

text \<open>\<open>_normalizeID(from, moduleName)\<close>, memoised process-wide on \<open>from + delimiter + moduleName\<close>.\<close>

definition normalizeID_user :: "sys \<Rightarrow> path \<Rightarrow> string \<Rightarrow> (string option \<times> string option) prog" where
  "normalizeID_user y from moduleName =
     andThen
       (if \<not> truthyS (getModule y moduleName None) \<and> \<not> truthyS (getMockModule y from moduleName)
        then andThen (gets virtualMocks) (\<lambda>vm.
          (let absolutePath =
                 (if moduleName \<noteq> [] \<and> vm (getVirtualMockPath y from moduleName) \<noteq> None
                  then Some (getVirtualMockPath y from moduleName) else None)
           in if absolutePath = None
              then andThen (Runtime_resolveModule y from (Some moduleName)) (\<lambda>p. ret (Some p))
              else ret absolutePath))
        else ret None)
       (\<lambda>absolutePath.
          (let absolutePath =
                 (if absolutePath = None
                  then (let moduleResource = getModule y moduleName None in
                        if truthyS moduleResource then moduleResource else None)
                  else absolutePath);
               mockPath =
                 (let mockResource = getMockModule y from moduleName in
                  if truthyS mockResource then mockResource else None)
           in ret (absolutePath, mockPath)))"

definition normalizeID :: "sys \<Rightarrow> path \<Rightarrow> string option \<Rightarrow> string prog" where
  "normalizeID y from moduleName0 =
     (let moduleName = (if truthyS moduleName0 then the moduleName0 else []);
          key = from @ path_delimiter (pth y) @ moduleName
      in andThen (gets (\<lambda>s. normalizedIDCache s key)) (\<lambda>cached.
         if truthyS cached then ret (the cached)
         else andThen
           (if isCoreModule y moduleName then ret (''node'', Some moduleName, None)
            else andThen (normalizeID_user y from moduleName) (\<lambda>(absolutePath, mockPath).
                   ret (''user'', absolutePath, mockPath)))
           (\<lambda>(moduleType, absolutePath, mockPath).
              (let sep = path_delimiter (pth y);
                   id = moduleType @ sep @ orEmpty absolutePath @ sep @ orEmpty mockPath
               in andThen (modify (\<lambda>s. s\<lparr>normalizedIDCache := (normalizedIDCache s)(key \<mapsto> id)\<rparr>))
                    (\<lambda>_. ret id)))))"

text \<open>\<open>_shouldMock(from, moduleName)\<close>. The \<open>try\<close> around \<open>_resolveModule\<close> yields
  \<open>None\<close> where its \<open>catch\<close> returns \<open>true\<close> from the method.\<close>

definition shouldMock :: "sys \<Rightarrow> path \<Rightarrow> string \<Rightarrow> bool prog" where
  "shouldMock y from moduleName =
     (let mockPath = getVirtualMockPath y from moduleName in
      andThen (gets virtualMocks) (\<lambda>vm.
      if vm mockPath \<noteq> None then ret True
      else andThen (normalizeID y from (Some moduleName)) (\<lambda>moduleID.
        (let key = from @ path_delimiter (pth y) @ moduleID in
         andThen (gets explicitShouldMock) (\<lambda>explicit.
         if explicit moduleID \<noteq> None then ret (the (explicit moduleID))
         else andThen (gets (\<lambda>s. \<not> shouldAutoMock s \<or> isCoreModule y moduleName
                 \<or> shouldUnmockTransitiveDependenciesCache s key = Some True)) (\<lambda>no.
         if no then ret False
         else andThen (gets shouldMockModuleCache) (\<lambda>cache.
         if cache moduleID \<noteq> None then ret (the (cache moduleID))
         else (let manualMock = getMockModule y from moduleName in
           andThen
             (tryCatch
                (andThen (Runtime_resolveModule y from (Some moduleName)) (\<lambda>p. ret (Some p)))
                (\<lambda>e. if truthyS manualMock
                      then andThen (modify (\<lambda>s. s\<lparr>shouldMockModuleCache :=
                                      (shouldMockModuleCache s)(moduleID \<mapsto> True)\<rparr>))
                             (\<lambda>_. ret None)
                      else raise e))
             (\<lambda>r. case r of
                None \<Rightarrow> ret True
              | Some modulePath \<Rightarrow>
                  andThen (gets unmockList) (\<lambda>ul.
                  if ul \<noteq> None \<and> regex_test (host y) (the ul) modulePath
                  then andThen (modify (\<lambda>s. s\<lparr>shouldMockModuleCache :=
                                  (shouldMockModuleCache s)(moduleID \<mapsto> False)\<rparr>))
                         (\<lambda>_. ret False)
                  else andThen (normalizeID y from None) (\<lambda>currentModuleID.
                    andThen (gets (\<lambda>s. transitiveShouldMock s currentModuleID = Some False
                        \<or> (str_includes from (NODE_MODULES y)
                            \<and> str_includes modulePath (NODE_MODULES y)
                            \<and> ((ul \<noteq> None \<and> regex_test (host y) (the ul) from)
                                \<or> explicit currentModuleID = Some False)))) (\<lambda>transitive.
                    if transitive
                    then andThen (modify (\<lambda>s. s\<lparr>transitiveShouldMock :=
                                      (transitiveShouldMock s)(moduleID \<mapsto> False),
                                    shouldUnmockTransitiveDependenciesCache :=
                                      (shouldUnmockTransitiveDependenciesCache s)(key \<mapsto> True)\<rparr>))
                           (\<lambda>_. ret False)
                    else andThen (modify (\<lambda>s. s\<lparr>shouldMockModuleCache :=
                                      (shouldMockModuleCache s)(moduleID \<mapsto> True)\<rparr>))
                           (\<lambda>_. ret True)))))))))))))"

text \<open>\<open>resetModuleRegistry()\<close>: two new empty tables; then, when the sandbox is alive,
  \<open>mockClear\<close> on every mock function of its global object and \<open>mockClearTimers\<close> when
  there is one.\<close>

definition mockClear :: "gval \<Rightarrow> gval" where
  "mockClear g = (case g of MockFunction calls \<Rightarrow> MockFunction 0 | Plain v \<Rightarrow> Plain v)"

definition resetModuleRegistry :: "unit prog" where
  "resetModuleRegistry =
     andThen newMockTable (\<lambda>mocks.
     andThen (modify (\<lambda>s. s\<lparr>mockRegistry := mocks\<rparr>)) (\<lambda>_.
     andThen newModuleTable (\<lambda>modules.
     andThen (modify (\<lambda>s. s\<lparr>moduleRegistry := modules\<rparr>)) (\<lambda>_.
     modify (\<lambda>s. case envGlobal s of
         None \<Rightarrow> s
       | Some envGlobal' \<Rightarrow>
           s\<lparr>envGlobal := Some (\<lambda>key. map_option mockClear (envGlobal' key)),
             mockClearTimers := map_option Suc (mockClearTimers s)\<rparr>)))))"

text \<open>\<open>setMock(from, moduleName, mockFactory, options)\<close>; \<open>options\<close> is \<open>None\<close> when
  absent, otherwise the value of \<open>virtual\<close>.\<close>

definition setMock :: "sys \<Rightarrow> path \<Rightarrow> string \<Rightarrow> frame \<times> factory \<Rightarrow> bool option \<Rightarrow> unit prog" where
  "setMock y from moduleName mockFactory options =
     andThen (if options = Some True
              then modify (\<lambda>s. s\<lparr>virtualMocks :=
                     (virtualMocks s)(getVirtualMockPath y from moduleName \<mapsto> True)\<rparr>)
              else ret ()) (\<lambda>_.
     andThen (normalizeID y from (Some moduleName)) (\<lambda>moduleID.
     modify (\<lambda>s. s\<lparr>explicitShouldMock := (explicitShouldMock s)(moduleID \<mapsto> True),
                  mockFactories := (mockFactories s)(moduleID \<mapsto> mockFactory)\<rparr>)))"

section \<open>Executing module bodies\<close>

text \<open>
  A body reaches the runtime again through its \<open>require\<close> function and its \<open>jest\<close>
  object. Those re-entrant calls are the only recursion of the runtime; each method below
  takes the function \<open>rec\<close> that answers them, and \<open>run\<close> (at the end of this section)
  closes the loop with a bound on the nesting depth of such calls.
\<close>

datatype call =
    CRequireModule path "string option" "bool option"
  | CRequireMock path string
  | CRequireModuleOrMock path string
  | CGenerateMock path string

fun evalExpr :: "expr \<Rightarrow> val \<Rightarrow> val prog" where
  "evalExpr (Lit v) acc = ret v"
| "evalExpr LastResult acc = ret acc"
| "evalExpr (Prop e k) acc =
     andThen (evalExpr e acc) (\<lambda>v. case v of
         VObj a \<Rightarrow> gets (\<lambda>s. case objects s a k of Some x \<Rightarrow> x | None \<Rightarrow> VUndefined)
       | VUndefined \<Rightarrow> raise (typeError ''Cannot read property of undefined'')
       | VNull \<Rightarrow> raise (typeError ''Cannot read property of null'')
       | _ \<Rightarrow> ret VUndefined)"

text \<open>
  One statement of a body running in frame \<open>fr\<close>; the value is that of the last
  \<open>require\<close>-like call. \<open>Require\<close> is the function built by
  \<open>_createRequireImplementation(from, options)\<close>, the three after it are its attributes
  \<open>requireActual\<close>, \<open>requireMock\<close> and \<open>resolve\<close>; the \<open>Jest\<close> statements are the
  operations of \<open>_createRuntimeFor(from)\<close>.
\<close>

fun execStmt :: "sys \<Rightarrow> (call \<Rightarrow> val prog) \<Rightarrow> frame \<Rightarrow> val \<Rightarrow> stmt \<Rightarrow> val prog"
and execStmts :: "sys \<Rightarrow> (call \<Rightarrow> val prog) \<Rightarrow> frame \<Rightarrow> val \<Rightarrow> stmt list \<Rightarrow> val prog" where
  "execStmts y rec fr acc [] = ret acc"
| "execStmts y rec fr acc (st # rest) =
     andThen (execStmt y rec fr acc st) (\<lambda>acc'. execStmts y rec fr acc' rest)"
| "execStmt y rec fr acc (Require moduleName) =
     (if fr_options fr = Some True
      then rec (CRequireModule (fr_from fr) (Some moduleName) (Some True))
      else rec (CRequireModuleOrMock (fr_from fr) moduleName))"
| "execStmt y rec fr acc (RequireActual moduleName) =
     rec (CRequireModule (fr_from fr) (Some moduleName) None)"
| "execStmt y rec fr acc (RequireMock moduleName) =
     rec (CRequireMock (fr_from fr) moduleName)"
| "execStmt y rec fr acc (RequireResolve moduleName) =
     andThen (Runtime_resolveModule y (fr_from fr) (Some moduleName)) (\<lambda>p. ret (VStr p))"
| "execStmt y rec fr acc (ExportsSet k e) =
     andThen (evalExpr e acc) (\<lambda>v. case fr_exports fr of
         VObj a \<Rightarrow> andThen (modify (\<lambda>s. s\<lparr>objects := (objects s)(a := (objects s a)(k \<mapsto> v))\<rparr>))
                     (\<lambda>_. ret acc)
       | VUndefined \<Rightarrow> raise (typeError ''Cannot set property of undefined'')
       | VNull \<Rightarrow> raise (typeError ''Cannot set property of null'')
       | _ \<Rightarrow> ret acc)"
| "execStmt y rec fr acc (ModuleExportsSet e) =
     andThen (evalExpr e acc) (\<lambda>v.
     andThen (modify (\<lambda>s. s\<lparr>moduleObjs := (moduleObjs s)
                (fr_module fr := (moduleObjs s (fr_module fr))\<lparr>mod_exports := v\<rparr>)\<rparr>))
       (\<lambda>_. ret acc))"
| "execStmt y rec fr acc (ThrowError msg) = raise (JSError ''Error'' msg None)"
| "execStmt y rec fr acc (TryCatch body handler) =
     tryCatch (execStmts y rec fr acc body) (\<lambda>e. execStmts y rec fr acc handler)"
| "execStmt y rec fr acc (JestMock moduleName mockFactory options) =
     (case mockFactory of
        Some f \<Rightarrow> andThen (setMock y (fr_from fr) moduleName (fr, f) options) (\<lambda>_. ret acc)
      | None \<Rightarrow>
          andThen (normalizeID y (fr_from fr) (Some moduleName)) (\<lambda>moduleID.
          andThen (modify (\<lambda>s. s\<lparr>explicitShouldMock :=
                     (explicitShouldMock s)(moduleID \<mapsto> True)\<rparr>)) (\<lambda>_. ret acc)))"
| "execStmt y rec fr acc (JestUnmock moduleName) =
     andThen (normalizeID y (fr_from fr) (Some moduleName)) (\<lambda>moduleID.
     andThen (modify (\<lambda>s. s\<lparr>explicitShouldMock :=
                (explicitShouldMock s)(moduleID \<mapsto> False)\<rparr>)) (\<lambda>_. ret acc))"
| "execStmt y rec fr acc (JestDeepUnmock moduleName) =
     andThen (normalizeID y (fr_from fr) (Some moduleName)) (\<lambda>moduleID.
     andThen (modify (\<lambda>s. s\<lparr>explicitShouldMock :=
                (explicitShouldMock s)(moduleID \<mapsto> False)\<rparr>)) (\<lambda>_.
     andThen (modify (\<lambda>s. s\<lparr>transitiveShouldMock :=
                (transitiveShouldMock s)(moduleID \<mapsto> False)\<rparr>)) (\<lambda>_. ret acc)))"
| "execStmt y rec fr acc (JestSetMock moduleName e) =
     andThen (evalExpr e acc) (\<lambda>mock.
     andThen (setMock y (fr_from fr) moduleName (fr, Factory [] (Lit mock)) None) (\<lambda>_. ret acc))"
| "execStmt y rec fr acc JestEnableAutomock =
     andThen (modify (\<lambda>s. s\<lparr>shouldAutoMock := True\<rparr>)) (\<lambda>_. ret acc)"
| "execStmt y rec fr acc JestDisableAutomock =
     andThen (modify (\<lambda>s. s\<lparr>shouldAutoMock := False\<rparr>)) (\<lambda>_. ret acc)"
| "execStmt y rec fr acc JestResetModuleRegistry =
     andThen resetModuleRegistry (\<lambda>_. ret acc)"
| "execStmt y rec fr acc (JestGenMockFromModule moduleName) =
     rec (CGenerateMock (fr_from fr) moduleName)"

text \<open>A mock factory runs in the frame of the module that registered it.\<close>

definition runFactory :: "sys \<Rightarrow> (call \<Rightarrow> val prog) \<Rightarrow> frame \<times> factory \<Rightarrow> val prog" where
  "runFactory y rec ff =
     (case ff of (fr, Factory body e) \<Rightarrow>
        andThen (execStmts y rec fr VUndefined body) (\<lambda>acc. evalExpr e acc))"

text \<open>\<open>_runScript(script, filename)\<close>: a \<open>SyntaxError\<close> is rewrapped, any other error
  is rethrown.\<close>

definition syntaxErrorMessage :: "sys \<Rightarrow> error \<Rightarrow> path \<Rightarrow> string" where
  "syntaxErrorMessage y e filename =
     (let relative = (\<lambda>filePath. path_relative (pth y) (cfg_rootDir (conf y)) filePath);
          preprocessorInfo =
            (if truthyS (cfg_scriptPreprocessor (conf y))
             then relative (the (cfg_scriptPreprocessor (conf y)))
             else ''No preprocessor specified, consider installing '' @ [CHR 0x27] @ ''babel-jest''
                    @ [CHR 0x27]);
          babelInfo =
            (if cfg_usesBabelJest (conf y)
             then ''Make sure your '' @ [CHR 0x27] @ ''.babelrc'' @ [CHR 0x27]
                    @ '' is set up correctly, for example it should include the ''
                    @ [CHR 0x27] @ ''es2015'' @ [CHR 0x27] @ '' preset.'' @ [CHR 0x0A]
             else [])
      in err_message e @ '' in file '' @ [CHR 0x27] @ relative filename @ [CHR 0x27] @ ''.''
           @ [CHR 0x0A, CHR 0x0A]
           @ ''Make sure your preprocessor is set up correctly and ensure your ''
           @ [CHR 0x27] @ ''preprocessorIgnorePatterns'' @ [CHR 0x27]
           @ '' configuration is correct: http://facebook.github.io/jest/docs/api.html#preprocessorignorepatterns-array-string''
           @ [CHR 0x0A]
           @ ''If you are currently setting up Jest or modifying your preprocessor, try `jest --no-cache`.''
           @ [CHR 0x0A]
           @ ''Preprocessor: '' @ preprocessorInfo @ ''.'' @ [CHR 0x0A] @ babelInfo)"

definition Runtime_runScript :: "sys \<Rightarrow> script \<Rightarrow> path \<Rightarrow> stmt list prog" where
  "Runtime_runScript y scr filename =
     tryCatch (liftE (runScript (host y) scr))
       (\<lambda>e. if err_name e = ''SyntaxError''
             then raise (JSError ''SyntaxError'' (syntaxErrorMessage y e filename) None)
             else raise e)"

text \<open>\<open>_execModule(localModule, options)\<close>; \<open>localModule\<close> is the address of the
  module object.\<close>

definition execModule :: "sys \<Rightarrow> (call \<Rightarrow> val prog) \<Rightarrow> nat \<Rightarrow> bool option \<Rightarrow> unit prog" where
  "execModule y rec localModule options =
     andThen (gets envGlobal) (\<lambda>global.
     if global = None then ret ()
     else (let isInternalModule = (options = Some True) in
       andThen (gets (\<lambda>s. mod_filename (moduleObjs s localModule))) (\<lambda>filename.
       andThen (gets currentlyExecutingModulePath) (\<lambda>lastExecutingModulePath.
       andThen (modify (\<lambda>s. s\<lparr>currentlyExecutingModulePath := filename\<rparr>)) (\<lambda>_.
       andThen (gets isCurrentlyExecutingManualMock) (\<lambda>origCurrExecutingManualMock.
       andThen (modify (\<lambda>s. s\<lparr>isCurrentlyExecutingManualMock := Some filename\<rparr>)) (\<lambda>_.
       (let dirname = path_dirname (pth y) filename in
       andThen (modify (\<lambda>s. s\<lparr>moduleObjs := (moduleObjs s)(localModule :=
                  (moduleObjs s localModule)\<lparr>mod_children := Some [],
                     mod_parent := Some ''mockParent''\<rparr>)\<rparr>)) (\<lambda>_.
       andThen (getModulePaths y dirname) (\<lambda>ps.
       andThen (modify (\<lambda>s. s\<lparr>moduleObjs := (moduleObjs s)(localModule :=
                  (moduleObjs s localModule)\<lparr>mod_paths := Some ps,
                     mod_require := Some (filename, options)\<rparr>)\<rparr>)) (\<lambda>_.
       andThen (liftE (transform (host y) filename isInternalModule)) (\<lambda>scr.
       andThen (Runtime_runScript y scr filename) (\<lambda>wrapper.
       andThen (gets (\<lambda>s. mod_exports (moduleObjs s localModule))) (\<lambda>exports.
       andThen (execStmts y rec
                  \<lparr>fr_from = filename, fr_options = options, fr_module = localModule,
                   fr_exports = exports\<rparr> VUndefined wrapper) (\<lambda>_.
       andThen (modify (\<lambda>s. s\<lparr>isCurrentlyExecutingManualMock :=
                  origCurrExecutingManualMock\<rparr>)) (\<lambda>_.
       modify (\<lambda>s. s\<lparr>currentlyExecutingModulePath := lastExecutingModulePath\<rparr>)
       ))))))))))))))))"

section \<open>The require entry points\<close>

text \<open>
  \<open>requireModule(from, moduleName, options)\<close> in its two halves: the choice of what to
  load (up to \<open>modulePath = this._resolveModule(from, moduleName)\<close>), whose result is
  either the value returned early for a core module or the path, and the registry
  discipline from \<open>if (!this._moduleRegistry[modulePath])\<close> on.
\<close>

definition requireModule_path :: "sys \<Rightarrow> path \<Rightarrow> string option \<Rightarrow> bool option
    \<Rightarrow> (val + path) prog" where
  "requireModule_path y from moduleName options =
     andThen (normalizeID y from moduleName) (\<lambda>moduleID.
     (let moduleResource =
            (if truthyS moduleName then getModule y (the moduleName) None else moduleName);
          manualMock =
            (if truthyS moduleName then getMockModule y from (the moduleName) else moduleName)
      in andThen (gets (\<lambda>s.
            if (options = None \<or> options = Some False) \<and> \<not> truthyS moduleResource
               \<and> truthyS manualMock \<and> manualMock \<noteq> isCurrentlyExecutingManualMock s
               \<and> explicitShouldMock s moduleID \<noteq> Some False
            then manualMock else None)) (\<lambda>modulePath.
         if truthyS moduleName \<and> isCoreModule y (the moduleName)
         then andThen (liftE (host_require (host y) (the moduleName))) (\<lambda>v. ret (Inl v))
         else if \<not> truthyS modulePath
         then andThen (Runtime_resolveModule y from moduleName) (\<lambda>p. ret (Inr p))
         else ret (Inr (the modulePath)))))"

definition setModuleExports :: "nat \<Rightarrow> val \<Rightarrow> unit prog" where
  "setModuleExports localModule v =
     modify (\<lambda>s. s\<lparr>moduleObjs := (moduleObjs s)
       (localModule := (moduleObjs s localModule)\<lparr>mod_exports := v\<rparr>)\<rparr>)"

text \<open>The pre-allocated module object \<open>{filename: modulePath, exports: {}}\<close>, installed
  in the current module registry.\<close>

definition registerModule :: "path \<Rightarrow> nat prog" where
  "registerModule modulePath =
     andThen (newObject Map.empty) (\<lambda>exports.
     andThen (newModule \<lparr>mod_filename = modulePath, mod_exports = VObj exports,
                mod_children = None, mod_parent = None, mod_paths = None,
                mod_require = None\<rparr>) (\<lambda>localModule.
     andThen (modify (\<lambda>s. s\<lparr>moduleTables := (moduleTables s)(moduleRegistry s :=
                (moduleTables s (moduleRegistry s))(modulePath \<mapsto> localModule))\<rparr>)) (\<lambda>_.
     ret localModule)))"

text \<open>The three ways of filling it: a \<open>.json\<close> file, a \<open>.node\<close> addon, a script.\<close>

definition loadFile :: "sys \<Rightarrow> (call \<Rightarrow> val prog) \<Rightarrow> path \<Rightarrow> nat \<Rightarrow> bool option \<Rightarrow> unit prog" where
  "loadFile y rec modulePath localModule options =
     (if path_extname (pth y) modulePath = ''.json'' then
        andThen (gets envGlobal) (\<lambda>global.
        if global = None then raise (typeError ''Cannot read property JSON of null'')
        else andThen (liftE (fs_readFileSync (host y) modulePath)) (\<lambda>text.
             andThen (liftE (JSON_parse (host y) text)) (\<lambda>v.
             setModuleExports localModule v)))
      else if path_extname (pth y) modulePath = ''.node'' then
        andThen (liftE (host_require (host y) modulePath)) (\<lambda>v.
        setModuleExports localModule v)
      else execModule y rec localModule options)"

text \<open>\<open>return this._moduleRegistry[modulePath].exports\<close>.\<close>

definition registeredExports :: "path \<Rightarrow> val prog" where
  "registeredExports modulePath =
     andThen (gets (\<lambda>s. moduleTables s (moduleRegistry s) modulePath)) (\<lambda>m.
       case m of
         None \<Rightarrow> raise (typeError ''Cannot read property exports of undefined'')
       | Some a \<Rightarrow> gets (\<lambda>s. mod_exports (moduleObjs s a)))"

definition requireModule_load :: "sys \<Rightarrow> (call \<Rightarrow> val prog) \<Rightarrow> path \<Rightarrow> bool option
    \<Rightarrow> val prog" where
  "requireModule_load y rec modulePath options =
     andThen (gets (\<lambda>s. moduleTables s (moduleRegistry s) modulePath)) (\<lambda>registered.
     andThen
       (if registered = None then
          andThen (registerModule modulePath) (\<lambda>localModule.
          loadFile y rec modulePath localModule options)
        else ret ())
       (\<lambda>_. registeredExports modulePath))"

definition requireModule :: "sys \<Rightarrow> (call \<Rightarrow> val prog) \<Rightarrow> path \<Rightarrow> string option \<Rightarrow> bool option
    \<Rightarrow> val prog" where
  "requireModule y rec from moduleName options =
     andThen (requireModule_path y from moduleName options) (\<lambda>target.
       case target of
         Inl v \<Rightarrow> ret v
       | Inr modulePath \<Rightarrow> requireModule_load y rec modulePath options)"

definition requireInternalModule :: "sys \<Rightarrow> (call \<Rightarrow> val prog) \<Rightarrow> path \<Rightarrow> string option
    \<Rightarrow> val prog" where
  "requireInternalModule y rec from to = requireModule y rec from to (Some True)"

text \<open>\<open>_generateMock(from, moduleName)\<close>. The orig registries are saved as addresses,
  two new tables are installed, and the addresses are put back after the require.\<close>

definition mockFromMetadata :: "sys \<Rightarrow> metadata option \<Rightarrow> val prog" where
  "mockFromMetadata y md =
     (case md of
        None \<Rightarrow> raise (typeError ''Cannot read property of null'')
      | Some m \<Rightarrow> (case generateFromMetadata (host y) m of
            Inl v \<Rightarrow> ret v
          | Inr ob \<Rightarrow> andThen (newObject ob) (\<lambda>a. ret (VObj a))))"

definition mockMetadataFailure :: "path \<Rightarrow> error" where
  "mockMetadataFailure modulePath =
     JSError ''Error'' (''Failed to get mock metadata: '' @ modulePath @ [CHR 0x0A, CHR 0x0A]
       @ ''See: http://facebook.github.io/jest/docs/manual-mocks.html#content'') None"

definition generateMock :: "sys \<Rightarrow> (call \<Rightarrow> val prog) \<Rightarrow> path \<Rightarrow> string \<Rightarrow> val prog" where
  "generateMock y rec from moduleName =
     andThen (Runtime_resolveModule y from (Some moduleName)) (\<lambda>modulePath.
     andThen (gets (\<lambda>s. mockMetaDataCache s modulePath \<noteq> None)) (\<lambda>cached.
     andThen
       (if \<not> cached then
          andThen (newObject Map.empty) (\<lambda>empty.
          andThen (modify (\<lambda>s. s\<lparr>mockMetaDataCache := (mockMetaDataCache s)
                     (modulePath \<mapsto> getMetadata (host y) (objects s) (VObj empty))\<rparr>)) (\<lambda>_.
          andThen (gets mockRegistry) (\<lambda>origMockRegistry.
          andThen (gets moduleRegistry) (\<lambda>origModuleRegistry.
          andThen newMockTable (\<lambda>mocks.
          andThen (modify (\<lambda>s. s\<lparr>mockRegistry := mocks\<rparr>)) (\<lambda>_.
          andThen newModuleTable (\<lambda>modules.
          andThen (modify (\<lambda>s. s\<lparr>moduleRegistry := modules\<rparr>)) (\<lambda>_.
          andThen (requireModule y rec from (Some moduleName) None) (\<lambda>moduleExports.
          andThen (modify (\<lambda>s. s\<lparr>mockRegistry := origMockRegistry\<rparr>)) (\<lambda>_.
          andThen (modify (\<lambda>s. s\<lparr>moduleRegistry := origModuleRegistry\<rparr>)) (\<lambda>_.
          andThen (gets (\<lambda>s. getMetadata (host y) (objects s) moduleExports)) (\<lambda>mockMetadata.
          if mockMetadata = None then raise (mockMetadataFailure modulePath)
          else modify (\<lambda>s. s\<lparr>mockMetaDataCache := (mockMetaDataCache s)
                 (modulePath \<mapsto> mockMetadata)\<rparr>)))))))))))))
        else ret ())
       (\<lambda>_. andThen (gets (\<lambda>s. the (mockMetaDataCache s modulePath))) (\<lambda>md.
          mockFromMetadata y md))))"

text \<open>\<open>requireMock(from, moduleName)\<close>. In \<open>this._mockRegistry[moduleID] = f()\<close> the
  table is read before the call and written after it.\<close>

definition setMockEntry :: "nat \<Rightarrow> string \<Rightarrow> val \<Rightarrow> unit prog" where
  "setMockEntry registry moduleID v =
     modify (\<lambda>s. s\<lparr>mockTables := (mockTables s)(registry :=
       (mockTables s registry)(moduleID \<mapsto> v))\<rparr>)"

definition requireMock :: "sys \<Rightarrow> (call \<Rightarrow> val prog) \<Rightarrow> path \<Rightarrow> string \<Rightarrow> val prog" where
  "requireMock y rec from moduleName =
     andThen (normalizeID y from (Some moduleName)) (\<lambda>moduleID.
     andThen (gets (\<lambda>s. mockTables s (mockRegistry s) moduleID)) (\<lambda>hit.
     if (case hit of None \<Rightarrow> False | Some v \<Rightarrow> truthy v) then ret (the hit)
     else andThen (gets mockFactories) (\<lambda>factories.
     if factories moduleID \<noteq> None then
       andThen (gets mockRegistry) (\<lambda>registry.
       andThen (runFactory y rec (the (factories moduleID))) (\<lambda>v.
       andThen (setMockEntry registry moduleID v) (\<lambda>_. ret v)))
     else (let manualMock = getMockModule y from moduleName in
       andThen
         (if truthyS manualMock
          then andThen (Runtime_resolveModule y from manualMock) (\<lambda>p. ret (True, p))
          else andThen (Runtime_resolveModule y from (Some moduleName)) (\<lambda>modulePath.
            (let moduleDir = path_dirname (pth y) modulePath;
                 moduleFileName = path_basename (pth y) modulePath;
                 potentialManualMock =
                   path_join (pth y) [moduleDir, ''__mocks__'', moduleFileName]
             in if fs_existsSync (host y) potentialManualMock
                then ret (True, potentialManualMock) else ret (False, modulePath))))
         (\<lambda>(manual, modulePath).
       andThen
         (if manual then
            andThen (newObject Map.empty) (\<lambda>exports.
            andThen (newModule \<lparr>mod_filename = modulePath, mod_exports = VObj exports,
                       mod_children = None, mod_parent = None, mod_paths = None,
                       mod_require = None\<rparr>) (\<lambda>localModule.
            andThen (execModule y rec localModule None) (\<lambda>_.
            andThen (gets mockRegistry) (\<lambda>registry.
            andThen (gets (\<lambda>s. mod_exports (moduleObjs s localModule))) (\<lambda>v.
            setMockEntry registry moduleID v)))))
          else
            andThen (gets mockRegistry) (\<lambda>registry.
            andThen (generateMock y rec from moduleName) (\<lambda>v.
            setMockEntry registry moduleID v)))
         (\<lambda>_. gets (\<lambda>s. case mockTables s (mockRegistry s) moduleID of
                   None \<Rightarrow> VUndefined | Some v \<Rightarrow> v)))))))"

definition requireModuleOrMock :: "sys \<Rightarrow> (call \<Rightarrow> val prog) \<Rightarrow> path \<Rightarrow> string \<Rightarrow> val prog" where
  "requireModuleOrMock y rec from moduleName =
     andThen (shouldMock y from moduleName) (\<lambda>mock.
     if mock then requireMock y rec from moduleName
     else requireModule y rec from (Some moduleName) None)"

text \<open>The loop closed: \<open>run y n\<close> answers a re-entrant call with at most \<open>n\<close> further
  levels of re-entrant calls below it.\<close>

primrec run :: "sys \<Rightarrow> nat \<Rightarrow> call \<Rightarrow> val prog" where
  "run y 0 = (\<lambda>c s. (OutOfFuel, s))"
| "run y (Suc n) = (\<lambda>c. case c of
       CRequireModule from moduleName options \<Rightarrow> requireModule y (run y n) from moduleName options
     | CRequireMock from moduleName \<Rightarrow> requireMock y (run y n) from moduleName
     | CRequireModuleOrMock from moduleName \<Rightarrow> requireModuleOrMock y (run y n) from moduleName
     | CGenerateMock from moduleName \<Rightarrow> generateMock y (run y n) from moduleName)"

section \<open>The constructor\<close>

fun join_with :: "string \<Rightarrow> string list \<Rightarrow> string" where
  "join_with sep [] = []"
| "join_with sep [x] = x"
| "join_with sep (x # xs) = x @ sep @ join_with sep xs"

fun forEach :: "('a \<Rightarrow> unit prog) \<Rightarrow> 'a list \<Rightarrow> unit prog" where
  "forEach f [] = ret ()"
| "forEach f (x # xs) = andThen (f x) (\<lambda>_. forEach f xs)"

definition unmockPath :: "sys \<Rightarrow> path \<Rightarrow> unit prog" where
  "unmockPath y filePath =
     (if filePath \<noteq> [] \<and> str_includes filePath (NODE_MODULES y)
      then andThen (normalizeID y filePath None) (\<lambda>moduleID.
             modify (\<lambda>s. s\<lparr>transitiveShouldMock := (transitiveShouldMock s)(moduleID \<mapsto> False)\<rparr>))
      else ret ())"

text \<open>The \<open>for\<close> loop over \<open>config.setupFiles\<close>, by index as in the source.\<close>

function requireSetupFiles :: "sys \<Rightarrow> (call \<Rightarrow> val prog) \<Rightarrow> nat \<Rightarrow> unit prog" where
  "requireSetupFiles y rec i =
     (if i < length (cfg_setupFiles (conf y))
      then andThen (requireModule y rec (cfg_setupFiles (conf y) ! i) None None)
             (\<lambda>_. requireSetupFiles y rec (Suc i))
      else ret ())"
  by pat_completeness auto
termination
  by (relation "measure (\<lambda>(y, rec, i). length (cfg_setupFiles (conf y)) - i)") auto

declare requireSetupFiles.simps [simp del]

text \<open>
  \<open>new Runtime(config, environment, resolver)\<close> on a process state: the heap, the
  process-wide caches, the resolver's caches and the environment are those given, the
  fields of the instance are initialised. (\<open>_mocksPattern\<close> and \<open>_testRegex\<close> are set by
  the source's constructor and read by no method of the file.)
\<close>

definition initFields :: "sys \<Rightarrow> unit prog" where
  "initFields y =
     andThen newModuleTable (\<lambda>modules.
     andThen newMockTable (\<lambda>mocks.
     andThen (modify (\<lambda>s. s\<lparr>moduleRegistry := modules, mockRegistry := mocks,
         currentlyExecutingModulePath := [], explicitShouldMock := Map.empty,
         isCurrentlyExecutingManualMock := None, mockFactories := Map.empty,
         shouldAutoMock := cfg_automock (conf y), virtualMocks := Map.empty,
         mockMetaDataCache := Map.empty, shouldMockModuleCache := Map.empty,
         shouldUnmockTransitiveDependenciesCache := Map.empty,
         transitiveShouldMock := Map.empty\<rparr>)) (\<lambda>_.
     andThen (modify (\<lambda>s. s\<lparr>unmockList := unmockRegExpCache s\<rparr>)) (\<lambda>_.
     andThen (gets unmockList) (\<lambda>ul.
     if ul = None \<and> cfg_unmockedModulePathPatterns (conf y) \<noteq> None
     then (let re = join_with ''|'' (the (cfg_unmockedModulePathPatterns (conf y))) in
           modify (\<lambda>s. s\<lparr>unmockList := Some re, unmockRegExpCache := Some re\<rparr>))
     else ret ())))))"

definition constructor :: "sys \<Rightarrow> (call \<Rightarrow> val prog) \<Rightarrow> unit prog" where
  "constructor y rec =
     andThen (initFields y) (\<lambda>_.
     andThen (forEach (unmockPath y) (cfg_setupFiles (conf y))) (\<lambda>_.
     andThen resetModuleRegistry (\<lambda>_.
     if cfg_setupFiles (conf y) \<noteq> [] then requireSetupFiles y rec 0 else ret ())))"

section \<open>A small project for the examples\<close>

text \<open>
  A POSIX \<open>path\<close> library on normalised paths, and a project with five files:
  \<open>a.js\<close> and \<open>b.js\<close> require each other (\<open>a.js\<close> sets \<open>exports.v\<close> before and
  after), \<open>t.js\<close> throws, and there are two setup files, one of them under
  \<open>node_modules\<close>. The haste map knows the module \<open>Foo\<close>, which node resolution
  finds as well. Outside the project, the directory \<open>/p\<close> has a node module with a
  colon in its name, \<open>q:Foo\<close>.
\<close>

definition ex_dirname :: "path \<Rightarrow> path" where
  "ex_dirname p =
     (let d = rev (drop 1 (dropWhile (\<lambda>c. c \<noteq> CHR ''/'') (rev p)))
      in if d = [] then (if take 1 p = ''/'' then ''/'' else ''.'') else d)"

definition ex_basename :: "path \<Rightarrow> string" where
  "ex_basename p = rev (takeWhile (\<lambda>c. c \<noteq> CHR ''/'') (rev p))"

definition ex_extname :: "path \<Rightarrow> string" where
  "ex_extname p =
     (let b = ex_basename p
      in if CHR ''.'' \<in> set (drop 1 b)
         then CHR ''.'' # rev (takeWhile (\<lambda>c. c \<noteq> CHR ''.'') (rev b)) else [])"

definition ex_relative :: "path \<Rightarrow> path \<Rightarrow> path" where
  "ex_relative a b = (if prefix (a @ ''/'') b then drop (length a + 1) b else b)"

definition ex_pathlib :: pathlib where
  "ex_pathlib = \<lparr>path_sep = ''/'', path_delimiter = '':'', path_dirname = ex_dirname,
     path_basename = ex_basename, path_extname = ex_extname, path_normalize = (\<lambda>p. p),
     path_join = join_with ''/'', path_relative = ex_relative\<rparr>"

definition ex_files :: "(path \<times> stmt list) list" where
  "ex_files =
     [(''/proj/a.js'', [ExportsSet ''v'' (Lit (VNum 1)), RequireActual ''./b'',
                        ExportsSet ''w'' (Prop LastResult ''seen''),
                        ExportsSet ''v'' (Lit (VNum 2))]),
      (''/proj/b.js'', [RequireActual ''./a'', ExportsSet ''seen'' (Prop LastResult ''v'')]),
      (''/proj/t.js'', [ThrowError ''boom'']),
      (''/proj/node_modules/setup/index.js'', [ExportsSet ''first'' (Lit (VBool True))]),
      (''/proj/setup.js'', [RequireActual ''./a''])]"

definition ex_node :: "((path \<times> string) \<times> path) list" where
  "ex_node =
     [((''/proj'', ''./a''), ''/proj/a.js''), ((''/proj'', ''./b''), ''/proj/b.js''),
      ((''/proj'', ''./t''), ''/proj/t.js''),
      ((''/proj'', ''Foo''), ''/proj/node_modules/Foo/index.js''),
      ((''/p'', ''q:Foo''), ''/p/node_modules/q:Foo.js'')]"

definition ex_notFound :: error where
  "ex_notFound = JSError ''Error'' ''not found'' None"

definition ex_host :: hostlib where
  "ex_host = \<lparr>
     resolve_sync = (\<lambda>browser name opts. case map_of ex_node (ro_basedir opts, name) of
                       Some p \<Rightarrow> Inr p | None \<Rightarrow> Inl ex_notFound),
     resolve_isCore = (\<lambda>name. name = ''fs''),
     nodeModulesPaths = (\<lambda>dir moduleDirectory. [Some (dir @ ''/node_modules''), None]),
     require_resolve = (\<lambda>p. Inl ex_notFound),
     nodePaths = None,
     host_require = (\<lambda>name. if name = ''fs'' then Inr (VHost 0) else Inl ex_notFound),
     fs_readFileSync = (\<lambda>p. Inl ex_notFound),
     fs_existsSync = (\<lambda>p. False),
     JSON_parse = (\<lambda>text. Inl ex_notFound),
     regex_test = (\<lambda>re str. False),
     regex_replace = (\<lambda>re str by. str),
     transform = (\<lambda>filename internal. Inr filename),
     runScript = (\<lambda>scr. case map_of ex_files scr of
                    Some body \<Rightarrow> Inr body | None \<Rightarrow> Inl ex_notFound),
     getMetadata = (\<lambda>heap v. Some (MetaConstant v)),
     generateFromMetadata = (\<lambda>md. Inr Map.empty)\<rparr>"

definition ex_resolver :: resolver where
  "ex_resolver = \<lparr>
     haste_map = [''Foo'' \<mapsto> [''g'' \<mapsto> (''/h/Foo.js'', MODULE)]],
     haste_mocks = Map.empty,
     GENERIC_PLATFORM = ''g'',
     opt_browser = False,
     opt_defaultPlatform = None,
     opt_extensions = [''.js''],
     opt_hasCoreModules = True,
     opt_moduleDirectories = [''node_modules''],
     opt_moduleNameMapper = None,
     opt_modulePaths = [],
     supportsNativePlatform = False\<rparr>"

definition ex_config :: config where
  "ex_config = \<lparr>cfg_rootDir = ''/proj'', cfg_automock = False,
     cfg_setupFiles = [''/proj/node_modules/setup/index.js'', ''/proj/setup.js''],
     cfg_unmockedModulePathPatterns = None, cfg_scriptPreprocessor = None,
     cfg_usesBabelJest = False\<rparr>"

definition ex_sys :: sys where
  "ex_sys = \<lparr>pth = ex_pathlib, host = ex_host, rslv = ex_resolver, conf = ex_config\<rparr>"

text \<open>A fresh process with a live sandbox, and a runtime instance on it that has loaded
  nothing (registries at addresses 0 and 1).\<close>

definition ex_state :: state where
  "ex_state = \<lparr>nextAddr = 2, objects = (\<lambda>a. Map.empty),
     moduleObjs = (\<lambda>a. \<lparr>mod_filename = [], mod_exports = VUndefined, mod_children = None,
        mod_parent = None, mod_paths = None, mod_require = None\<rparr>),
     moduleTables = (\<lambda>a. Map.empty), mockTables = (\<lambda>a. Map.empty),
     normalizedIDCache = Map.empty, moduleNameCache = Map.empty, modulePathCache = Map.empty,
     moduleRegistry = 0, mockRegistry = 1,
     currentlyExecutingModulePath = [], isCurrentlyExecutingManualMock = None,
     explicitShouldMock = Map.empty, mockFactories = Map.empty, mockMetaDataCache = Map.empty,
     shouldAutoMock = False, shouldMockModuleCache = Map.empty,
     shouldUnmockTransitiveDependenciesCache = Map.empty, transitiveShouldMock = Map.empty,
     virtualMocks = Map.empty, unmockList = None, unmockRegExpCache = None,
     envGlobal = Some [''spy'' \<mapsto> MockFunction 3], mockClearTimers = Some 0\<rparr>"

text \<open>The state in which \<open>t.js\<close> has its module object (address 3, exports at 2) but has
  not run, the frame of a body of \<open>a.js\<close>, and the state after that body has called
  \<open>jest.mock('fs')\<close>.\<close>

definition ex_state_t :: state where
  "ex_state_t = snd (registerModule ''/proj/t.js'' ex_state)"

definition ex_frame :: frame where
  "ex_frame = \<lparr>fr_from = ''/proj/a.js'', fr_options = None, fr_module = 3, fr_exports = VObj 2\<rparr>"

definition ex_state_mocked :: state where
  "ex_state_mocked =
     snd (execStmts ex_sys (run ex_sys 0) ex_frame VUndefined [JestMock ''fs'' None None] ex_state)"

section \<open>Notions used in the statements\<close>

text \<open>
  \<open>preserves P m\<close>: the state predicate \<open>P\<close> is an invariant of the method \<open>m\<close>,
  whatever its outcome.
\<close>

definition preserves :: "(state \<Rightarrow> bool) \<Rightarrow> 'a prog \<Rightarrow> bool" where
  "preserves P m \<longleftrightarrow> (\<forall>s. P s \<longrightarrow> P (snd (m s)))"

text \<open>
  \<open>frame b s\<close>: seen from a base state \<open>b\<close>, the state \<open>s\<close> has allocated only upwards,
  its two registry pointers are those of \<open>b\<close> or tables allocated since, and every registry
  table that existed in \<open>b\<close> and was not current there has the contents it had in \<open>b\<close>.
\<close>

definition frame :: "state \<Rightarrow> state \<Rightarrow> bool" where
  "frame b s \<longleftrightarrow>
     nextAddr b \<le> nextAddr s
     \<and> (moduleRegistry s = moduleRegistry b \<or> nextAddr b \<le> moduleRegistry s)
     \<and> (mockRegistry s = mockRegistry b \<or> nextAddr b \<le> mockRegistry s)
     \<and> (\<forall>a. a < nextAddr b \<and> a \<noteq> moduleRegistry b \<longrightarrow> moduleTables s a = moduleTables b a)
     \<and> (\<forall>a. a < nextAddr b \<and> a \<noteq> mockRegistry b \<longrightarrow> mockTables s a = mockTables b a)"

text \<open>\<open>sameButCaches s s'\<close>: \<open>s'\<close> is \<open>s\<close> up to the two memo tables of name resolution
  (\<open>normalizedIDCache\<close> and the resolver's \<open>moduleNameCache\<close>).\<close>

definition sameButCaches :: "state \<Rightarrow> state \<Rightarrow> bool" where
  "sameButCaches s s' \<longleftrightarrow>
     s'\<lparr>normalizedIDCache := normalizedIDCache s, moduleNameCache := moduleNameCache s\<rparr> = s"




section \<open>Reasoning about methods\<close>

subsection \<open>Outcomes of the sequencing operators\<close>

lemma prog_simps:
  "ret x s = (Returns x, s)"
  "raise e s = (Throws e, s)"
  "gets g s = (Returns (g s), s)"
  "modify h s = (Returns (), h s)"
  "andThen m f s = (case m s of (Returns x, s') \<Rightarrow> f x s' | (Throws e, s') \<Rightarrow> (Throws e, s')
      | (OutOfFuel, s') \<Rightarrow> (OutOfFuel, s'))"
  "tryCatch m hh s = (case m s of (Throws e, s') \<Rightarrow> hh e s' | r \<Rightarrow> r)"
  "liftE (Inr x) s = (Returns x, s)"
  "liftE (Inl e) s = (Throws e, s)"
  by (auto simp: andThen_def ret_def raise_def gets_def modify_def tryCatch_def liftE_def)

lemma andThen_assoc: "andThen (andThen m f) g = andThen m (\<lambda>x. andThen (f x) g)"
  by (rule ext) (simp add: andThen_def split: prod.splits outcome.splits)

lemma andThen_Returns: "m s = (Returns x, s') \<Longrightarrow> andThen m f s = f x s'"
  by (simp add: andThen_def)

lemma andThen_Returns_iff:
  "andThen m f s = (Returns u, s') \<longleftrightarrow> (\<exists>x s1. m s = (Returns x, s1) \<and> f x s1 = (Returns u, s'))"
  by (auto simp: andThen_def split: prod.splits outcome.splits)

lemma prim_Returns_iff:
  "ret x s = (Returns u, s') \<longleftrightarrow> u = x \<and> s' = s"
  "gets g s = (Returns u, s') \<longleftrightarrow> u = g s \<and> s' = s"
  "modify h s = (Returns w, s') \<longleftrightarrow> s' = h s"
  "raise e s = (Returns u, s') \<longleftrightarrow> False"
  by (auto simp: ret_def gets_def modify_def raise_def)

lemma newObject_Returns_iff:
  "newObject ob s = (Returns a, s') \<longleftrightarrow>
     a = nextAddr s \<and> s' = s\<lparr>nextAddr := Suc (nextAddr s), objects := (objects s)(nextAddr s := ob)\<rparr>"
  by (auto simp: newObject_def)

lemma newTable_Returns_iff:
  "newMockTable s = (Returns a, s') \<longleftrightarrow>
     a = nextAddr s \<and> s' = s\<lparr>nextAddr := Suc (nextAddr s), mockTables := (mockTables s)(nextAddr s := Map.empty)\<rparr>"
  "newModuleTable s = (Returns a, s') \<longleftrightarrow>
     a = nextAddr s \<and> s' = s\<lparr>nextAddr := Suc (nextAddr s), moduleTables := (moduleTables s)(nextAddr s := Map.empty)\<rparr>"
  by (auto simp: newMockTable_def newModuleTable_def)

subsection \<open>Invariants of methods\<close>

text \<open>The rules by which an invariant of the parts of a method is one of the method.\<close>

lemma preserves_ret: "preserves P (ret x)"
  and preserves_raise: "preserves P (raise e)"
  and preserves_gets: "preserves P (gets g)"
  and preserves_liftE: "preserves P (liftE r)"
  by (auto simp: preserves_def prog_simps liftE_def split: sum.splits)

lemma preserves_modify: "(\<And>s. P s \<Longrightarrow> P (h s)) \<Longrightarrow> preserves P (modify h)"
  by (simp add: preserves_def prog_simps)

lemma preserves_andThen:
  "preserves P m \<Longrightarrow> (\<And>x. preserves P (f x)) \<Longrightarrow> preserves P (andThen m f)"
  unfolding preserves_def prog_simps
  by (auto split: prod.splits outcome.splits)

lemma preserves_gets_andThen:
  "(\<And>s. P s \<Longrightarrow> preserves P (f (g s))) \<Longrightarrow> preserves P (andThen (gets g) f)"
  by (simp add: preserves_def prog_simps)

lemma preserves_tryCatch:
  "preserves P m \<Longrightarrow> (\<And>e. preserves P (hh e)) \<Longrightarrow> preserves P (tryCatch m hh)"
  unfolding preserves_def prog_simps
  by (auto split: prod.splits outcome.splits)

lemma preserves_if:
  "(c \<Longrightarrow> preserves P m) \<Longrightarrow> (\<not> c \<Longrightarrow> preserves P n) \<Longrightarrow> preserves P (if c then m else n)"
  by simp

lemma preserves_case_option:
  "(x = None \<Longrightarrow> preserves P m) \<Longrightarrow> (\<And>a. x = Some a \<Longrightarrow> preserves P (f a))
   \<Longrightarrow> preserves P (case x of None \<Rightarrow> m | Some a \<Rightarrow> f a)"
  by (cases x) simp_all

lemma preserves_case_prod:
  "(\<And>a b. preserves P (f a b)) \<Longrightarrow> preserves P (case x of (a, b) \<Rightarrow> f a b)"
  by (cases x) simp

lemma preserves_case_sum:
  "(\<And>a. preserves P (f a)) \<Longrightarrow> (\<And>b. preserves P (g b))
   \<Longrightarrow> preserves P (case x of Inl a \<Rightarrow> f a | Inr b \<Rightarrow> g b)"
  by (cases x) simp_all

lemma preserves_case_list:
  "preserves P m \<Longrightarrow> (\<And>a as. preserves P (f a as))
   \<Longrightarrow> preserves P (case x of [] \<Rightarrow> m | a # as \<Rightarrow> f a as)"
  by (cases x) simp_all

lemmas preserves_intros = preserves_ret preserves_raise preserves_gets preserves_liftE
  preserves_gets_andThen preserves_andThen preserves_tryCatch preserves_if
  preserves_case_option preserves_case_prod preserves_case_sum preserves_case_list

lemma evalExpr_preserves: "preserves P (evalExpr e acc)"
  by (induction e acc rule: evalExpr.induct)
     (auto intro!: preserves_intros split: val.splits)

subsection \<open>Methods that touch the memo tables only\<close>

lemma sameButCaches_refl: "sameButCaches s s"
  by (simp add: sameButCaches_def)

lemma sameButCaches_fields:
  assumes "sameButCaches s s'"
  shows "nextAddr s' = nextAddr s" "objects s' = objects s" "moduleObjs s' = moduleObjs s"
    "moduleTables s' = moduleTables s" "mockTables s' = mockTables s"
    "moduleRegistry s' = moduleRegistry s" "mockRegistry s' = mockRegistry s"
    "currentlyExecutingModulePath s' = currentlyExecutingModulePath s"
    "isCurrentlyExecutingManualMock s' = isCurrentlyExecutingManualMock s"
    "explicitShouldMock s' = explicitShouldMock s" "virtualMocks s' = virtualMocks s"
    "envGlobal s' = envGlobal s"
proof -
  let ?t = "s'\<lparr>normalizedIDCache := normalizedIDCache s, moduleNameCache := moduleNameCache s\<rparr>"
  have eq: "?t = s" using assms by (simp add: sameButCaches_def)
  show "nextAddr s' = nextAddr s" using arg_cong[OF eq, of nextAddr] by simp
  show "objects s' = objects s" using arg_cong[OF eq, of objects] by simp
  show "moduleObjs s' = moduleObjs s" using arg_cong[OF eq, of moduleObjs] by simp
  show "moduleTables s' = moduleTables s" using arg_cong[OF eq, of moduleTables] by simp
  show "mockTables s' = mockTables s" using arg_cong[OF eq, of mockTables] by simp
  show "moduleRegistry s' = moduleRegistry s" using arg_cong[OF eq, of moduleRegistry] by simp
  show "mockRegistry s' = mockRegistry s" using arg_cong[OF eq, of mockRegistry] by simp
  show "currentlyExecutingModulePath s' = currentlyExecutingModulePath s"
    using arg_cong[OF eq, of currentlyExecutingModulePath] by simp
  show "isCurrentlyExecutingManualMock s' = isCurrentlyExecutingManualMock s"
    using arg_cong[OF eq, of isCurrentlyExecutingManualMock] by simp
  show "explicitShouldMock s' = explicitShouldMock s"
    using arg_cong[OF eq, of explicitShouldMock] by simp
  show "virtualMocks s' = virtualMocks s" using arg_cong[OF eq, of virtualMocks] by simp
  show "envGlobal s' = envGlobal s" using arg_cong[OF eq, of envGlobal] by simp
qed

lemma sameButCaches_upd:
  "sameButCaches b s \<Longrightarrow> sameButCaches b (s\<lparr>normalizedIDCache := c\<rparr>)"
  "sameButCaches b s \<Longrightarrow> sameButCaches b (s\<lparr>moduleNameCache := d\<rparr>)"
  by (simp_all add: sameButCaches_def)

lemma resolveModule_caches: "preserves (sameButCaches b) (resolveModule y from moduleName options)"
  unfolding resolveModule_def cacheModuleName_def Let_def
  by (intro preserves_intros preserves_modify sameButCaches_upd)

lemma Runtime_resolveModule_caches:
  "preserves (sameButCaches b) (Runtime_resolveModule y from to)"
  unfolding Runtime_resolveModule_def
  by (intro preserves_intros resolveModule_caches)

lemma normalizeID_caches: "preserves (sameButCaches b) (normalizeID y from moduleName)"
  unfolding normalizeID_def normalizeID_user_def Let_def
  by (intro preserves_intros preserves_modify sameButCaches_upd Runtime_resolveModule_caches)

lemma requireModule_path_caches:
  "preserves (sameButCaches b) (requireModule_path y from moduleName options)"
  unfolding requireModule_path_def Let_def
  by (intro preserves_intros preserves_modify normalizeID_caches Runtime_resolveModule_caches)

lemma normalizeID_same: "sameButCaches s (snd (normalizeID y from moduleName s))"
  using normalizeID_caches[of s y "from" moduleName] sameButCaches_refl[of s]
  by (simp add: preserves_def)

lemma requireModule_path_same: "sameButCaches s (snd (requireModule_path y from moduleName options s))"
  using requireModule_path_caches[of s y "from" moduleName options] sameButCaches_refl[of s]
  by (simp add: preserves_def)

lemma Runtime_resolveModule_same:
  "Runtime_resolveModule y from to s = (r, sa) \<Longrightarrow> sameButCaches s sa"
  using Runtime_resolveModule_caches[of s y "from" to] sameButCaches_refl[of s]
  unfolding preserves_def by (metis snd_conv)

subsection \<open>The resolver\<close>

text \<open>The haste lookup does not depend on the host functions; a cache hit ends
  \<open>resolveModule\<close> at once, a haste module ends it at step 1.\<close>

lemma truthyS_simps: "truthyS None = False" "truthyS (Some x) = (x \<noteq> [])"
  by (simp_all add: truthyS_def)

lemma split_on_nonempty: "split_on c xs \<noteq> []"
  by (induction xs) (auto split: list.splits)




subsection \<open>\<open>_normalizeID\<close> without a module name, and of a core module\<close>

lemma normalizeID_no_name:
  assumes "\<not> truthyS moduleName"
  shows "\<exists>moduleID. fst (normalizeID y from moduleName s) = Returns moduleID"
    and "snd (normalizeID y from moduleName s)
           = s\<lparr>normalizedIDCache := normalizedIDCache (snd (normalizeID y from moduleName s))\<rparr>"
  using assms
  by (auto simp: normalizeID_def normalizeID_user_def Runtime_resolveModule_def Let_def prog_simps
        truthyS_simps split: if_splits)

lemma requireModule_path_no_name:
  assumes "\<not> truthyS moduleName"
  shows "requireModule_path y from moduleName options s
           = (Returns (Inr from), snd (normalizeID y from moduleName s))"
proof -
  obtain moduleID where "fst (normalizeID y from moduleName s) = Returns moduleID"
    using normalizeID_no_name(1)[OF assms] by blast
  then obtain s0 where n: "normalizeID y from moduleName s = (Returns moduleID, s0)"
    by (cases "normalizeID y from moduleName s") auto
  show ?thesis
    using assms
    by (simp add: requireModule_path_def Let_def prog_simps n Runtime_resolveModule_def
          truthyS_simps split: option.splits)
qed



lemma normalizeID_core:
  assumes "isCoreModule y n"
  shows "\<exists>moduleID. fst (normalizeID y from (Some n) s) = Returns moduleID"
  using assms
  by (cases "n = []") (auto simp: normalizeID_def Let_def prog_simps truthyS_simps)

subsection \<open>The registry discipline of \<open>requireModule\<close>\<close>

lemma registerModule_result:
  "fst (registerModule p s) = Returns (Suc (nextAddr s))"
  "moduleRegistry (snd (registerModule p s)) = moduleRegistry s"
  "moduleTables (snd (registerModule p s)) (moduleRegistry s) p = Some (Suc (nextAddr s))"
  "mod_filename (moduleObjs (snd (registerModule p s)) (Suc (nextAddr s))) = p"
  "mod_exports (moduleObjs (snd (registerModule p s)) (Suc (nextAddr s))) = VObj (nextAddr s)"
  "objects (snd (registerModule p s)) (nextAddr s) = Map.empty"
  by (simp_all add: registerModule_def newObject_def newModule_def prog_simps)

lemma requireModule_load_unregistered:
  assumes "moduleTables s (moduleRegistry s) p = None"
  shows "requireModule_load y rec p opts s
           = andThen (loadFile y rec p (Suc (nextAddr s)) opts) (\<lambda>_. registeredExports p)
               (snd (registerModule p s))"
proof -
  have r: "registerModule p s = (Returns (Suc (nextAddr s)), snd (registerModule p s))"
    using registerModule_result(1)[of p s] by (metis prod.collapse)
  have "requireModule_load y rec p opts s
          = andThen (andThen (registerModule p) (\<lambda>localModule. loadFile y rec p localModule opts))
              (\<lambda>_. registeredExports p) s"
    unfolding requireModule_load_def
    by (rule trans[OF andThen_Returns[where m="gets (\<lambda>s. moduleTables s (moduleRegistry s) p)"
            and s=s and x=None and s'=s]]) (simp_all add: gets_def assms)
  also have "\<dots> = andThen (loadFile y rec p (Suc (nextAddr s)) opts) (\<lambda>_. registeredExports p)
               (snd (registerModule p s))"
    unfolding andThen_assoc
    by (rule andThen_Returns[where m="registerModule p" and s=s, OF r])
  finally show ?thesis .
qed

lemma requireModule_load_registered:
  assumes "moduleTables s (moduleRegistry s) p = Some m"
  shows "requireModule_load y rec p opts s = (Returns (mod_exports (moduleObjs s m)), s)"
  using assms by (simp add: requireModule_load_def registeredExports_def prog_simps)

lemma requireModule_load_returns:
  assumes "requireModule_load y rec p opts s = (Returns v, s1)"
  shows "\<exists>m. moduleTables s1 (moduleRegistry s1) p = Some m \<and> v = mod_exports (moduleObjs s1 m)"
  using assms
  by (auto simp: requireModule_load_def registeredExports_def prog_simps
        split: if_splits prod.splits outcome.splits option.splits)

subsection \<open>The two pointers of \<open>_execModule\<close>\<close>

lemma getModulePaths_pointers:
  "getModulePaths y d s = (r, s1) \<Longrightarrow>
     currentlyExecutingModulePath s1 = currentlyExecutingModulePath s
     \<and> isCurrentlyExecutingManualMock s1 = isCurrentlyExecutingManualMock s
     \<and> moduleObjs s1 = moduleObjs s"
  by (auto simp: getModulePaths_def Let_def prog_simps split: option.splits)

lemma execModule_returns:
  assumes "execModule y rec localModule options s = (Returns u, s')"
  shows "currentlyExecutingModulePath s' = currentlyExecutingModulePath s
       \<and> isCurrentlyExecutingManualMock s' = isCurrentlyExecutingManualMock s"
  using assms
  by (auto simp: execModule_def Let_def andThen_Returns_iff prim_Returns_iff split: if_splits)

lemma execModule_transform_error:
  assumes "envGlobal s \<noteq> None"
    and "transform (host y) (mod_filename (moduleObjs s localModule)) (options = Some True) = Inl e"
  shows "fst (execModule y rec localModule options s) = Throws e
            \<and> currentlyExecutingModulePath (snd (execModule y rec localModule options s))
                = mod_filename (moduleObjs s localModule)
            \<and> isCurrentlyExecutingManualMock (snd (execModule y rec localModule options s))
                = Some (mod_filename (moduleObjs s localModule))"
proof -
  let ?f = "mod_filename (moduleObjs s localModule)"
  let ?s1 = "s\<lparr>currentlyExecutingModulePath := ?f, isCurrentlyExecutingManualMock := Some ?f,
    moduleObjs := (moduleObjs s)(localModule := (moduleObjs s localModule)\<lparr>mod_children := Some [],
                     mod_parent := Some ''mockParent''\<rparr>)\<rparr>"
  obtain ps s2 where g: "getModulePaths y (path_dirname (pth y) ?f) ?s1 = (Returns ps, s2)"
    by (cases "getModulePaths y (path_dirname (pth y) ?f) ?s1")
       (auto simp: getModulePaths_def Let_def prog_simps split: option.splits)
  from getModulePaths_pointers[OF g] show ?thesis
    using assms
    by (simp add: execModule_def Let_def prog_simps g)
qed

section \<open>The frame of the registries\<close>

text \<open>
  Every method stays within the frame of every base state: it writes to the registry
  tables in force (those of the base, or tables allocated since) and to no other table
  that the base knew. For the methods that run bodies this holds when the re-entrant
  calls do; \<open>run\<close> closes the induction.
\<close>

lemma frame_refl: "frame b b"
  by (simp add: frame_def)

lemma frame_newObject: "preserves (frame b) (newObject ob)"
  and frame_newModule: "preserves (frame b) (newModule m)"
  by (auto simp: preserves_def frame_def newObject_def newModule_def)

lemma frame_newMockTable:
  "(\<And>x. nextAddr b \<le> x \<Longrightarrow> preserves (frame b) (f x)) \<Longrightarrow> preserves (frame b) (andThen newMockTable f)"
  unfolding preserves_def
proof (intro allI impI)
  fix s assume f: "\<And>x. nextAddr b \<le> x \<Longrightarrow> \<forall>s. frame b s \<longrightarrow> frame b (snd (f x s))"
    and s: "frame b s"
  let ?s1 = "s\<lparr>nextAddr := Suc (nextAddr s), mockTables := (mockTables s)(nextAddr s := Map.empty)\<rparr>"
  have "frame b ?s1" using s by (auto simp: frame_def)
  moreover have "nextAddr b \<le> nextAddr s" using s by (simp add: frame_def)
  ultimately have "frame b (snd (f (nextAddr s) ?s1))" using f by blast
  then show "frame b (snd (andThen newMockTable f s))"
    by (simp add: newMockTable_def andThen_def)
qed

lemma frame_newModuleTable:
  "(\<And>x. nextAddr b \<le> x \<Longrightarrow> preserves (frame b) (f x)) \<Longrightarrow> preserves (frame b) (andThen newModuleTable f)"
  unfolding preserves_def
proof (intro allI impI)
  fix s assume f: "\<And>x. nextAddr b \<le> x \<Longrightarrow> \<forall>s. frame b s \<longrightarrow> frame b (snd (f x s))"
    and s: "frame b s"
  let ?s1 = "s\<lparr>nextAddr := Suc (nextAddr s), moduleTables := (moduleTables s)(nextAddr s := Map.empty)\<rparr>"
  have "frame b ?s1" using s by (auto simp: frame_def)
  moreover have "nextAddr b \<le> nextAddr s" using s by (simp add: frame_def)
  ultimately have "frame b (snd (f (nextAddr s) ?s1))" using f by blast
  then show "frame b (snd (andThen newModuleTable f s))"
    by (simp add: newModuleTable_def andThen_def)
qed

lemma frame_setMockEntry:
  "r = mockRegistry b \<or> nextAddr b \<le> r \<Longrightarrow> preserves (frame b) (setMockEntry r moduleID v)"
  by (auto simp: preserves_def frame_def setMockEntry_def prog_simps)

lemma frame_registerModule: "preserves (frame b) (registerModule p)"
  by (auto simp: preserves_def frame_def registerModule_def newObject_def newModule_def prog_simps)

lemma frame_setModuleExports: "preserves (frame b) (setModuleExports m v)"
  by (auto simp: preserves_def frame_def setModuleExports_def prog_simps)

lemma frame_resetModuleRegistry: "preserves (frame b) resetModuleRegistry"
  by (auto simp: preserves_def frame_def resetModuleRegistry_def newMockTable_def
        newModuleTable_def prog_simps split: option.splits)

lemmas frame_intros = frame_newMockTable frame_newModuleTable frame_newObject frame_newModule
  frame_setMockEntry frame_registerModule frame_setModuleExports frame_resetModuleRegistry
  evalExpr_preserves preserves_intros preserves_modify

lemma frame_resolveModule: "preserves (frame b) (resolveModule y from moduleName options)"
  unfolding resolveModule_def cacheModuleName_def Let_def
  by (intro frame_intros; simp add: frame_def)

lemma frame_Runtime_resolveModule: "preserves (frame b) (Runtime_resolveModule y from to)"
  unfolding Runtime_resolveModule_def
  by (intro frame_intros frame_resolveModule)

lemma frame_normalizeID: "preserves (frame b) (normalizeID y from moduleName)"
  unfolding normalizeID_def normalizeID_user_def Let_def
  by (intro frame_intros frame_Runtime_resolveModule; simp add: frame_def)

lemma frame_shouldMock: "preserves (frame b) (shouldMock y from moduleName)"
  unfolding shouldMock_def Let_def
  by (intro frame_intros frame_Runtime_resolveModule frame_normalizeID; simp add: frame_def)

lemma frame_setMock: "preserves (frame b) (setMock y from moduleName mockFactory options)"
  unfolding setMock_def
  by (intro frame_intros frame_normalizeID; simp add: frame_def)

lemma frame_getModulePaths: "preserves (frame b) (getModulePaths y from)"
  unfolding getModulePaths_def Let_def
  by (intro frame_intros; simp add: frame_def)

lemma frame_requireModule_path:
  "preserves (frame b) (requireModule_path y from moduleName options)"
  unfolding requireModule_path_def Let_def
  by (intro frame_intros frame_normalizeID frame_Runtime_resolveModule)

lemma frame_Runtime_runScript: "preserves (frame b) (Runtime_runScript y scr filename)"
  unfolding Runtime_runScript_def
  by (intro frame_intros)

lemmas frame_first_order = frame_resolveModule frame_Runtime_resolveModule frame_normalizeID
  frame_shouldMock frame_setMock frame_getModulePaths frame_requireModule_path
  frame_Runtime_runScript

lemma frame_exec:
  assumes "\<And>c. preserves (frame b) (rec c)"
  shows "preserves (frame b) (execStmt y rec fr acc st)"
    and "preserves (frame b) (execStmts y rec fr acc sts)"
  using assms
proof (induction y rec fr acc st and y rec fr acc sts rule: execStmt_execStmts.induct)
  case (7 y rec fr acc k e)
  show ?case
    by (cases "fr_exports fr"; simp) (intro frame_intros; simp add: frame_def)+
next
  case (11 y rec fr acc moduleName mockFactory options)
  show ?case
    by (cases mockFactory; simp) (intro frame_intros frame_first_order; simp add: frame_def)+
qed (simp, (intro frame_intros frame_first_order)?; simp add: frame_def)+

lemma frame_runFactory:
  assumes "\<And>c. preserves (frame b) (rec c)"
  shows "preserves (frame b) (runFactory y rec ff)"
  unfolding runFactory_def
  by (cases ff; cases "snd ff")
     (simp, intro frame_intros frame_exec(2) assms)

lemma frame_execModule:
  assumes "\<And>c. preserves (frame b) (rec c)"
  shows "preserves (frame b) (execModule y rec localModule options)"
  unfolding execModule_def Let_def
  by (intro frame_intros frame_first_order frame_exec(2) assms; simp add: frame_def)

lemma frame_loadFile:
  assumes "\<And>c. preserves (frame b) (rec c)"
  shows "preserves (frame b) (loadFile y rec modulePath localModule options)"
  unfolding loadFile_def
  by (intro frame_intros frame_execModule assms)

lemma frame_registeredExports: "preserves (frame b) (registeredExports modulePath)"
  unfolding registeredExports_def
  by (intro frame_intros)

lemma frame_requireModule_load:
  assumes "\<And>c. preserves (frame b) (rec c)"
  shows "preserves (frame b) (requireModule_load y rec modulePath options)"
  unfolding requireModule_load_def
  by (intro frame_intros frame_loadFile frame_registeredExports assms)

lemma frame_requireModule:
  assumes "\<And>c. preserves (frame b) (rec c)"
  shows "preserves (frame b) (requireModule y rec from moduleName options)"
  unfolding requireModule_def
  by (intro frame_intros frame_first_order frame_requireModule_load assms)

lemma frame_mockFromMetadata: "preserves (frame b) (mockFromMetadata y md)"
  unfolding mockFromMetadata_def
  by (intro frame_intros)

lemma frame_generateMock:
  assumes "\<And>c. preserves (frame b) (rec c)"
  shows "preserves (frame b) (generateMock y rec from moduleName)"
  unfolding generateMock_def
  by (intro frame_intros frame_first_order frame_requireModule frame_mockFromMetadata assms;
      simp add: frame_def)

lemma frame_requireMock:
  assumes "\<And>c. preserves (frame b) (rec c)"
  shows "preserves (frame b) (requireMock y rec from moduleName)"
  unfolding requireMock_def Let_def
  by (intro frame_intros frame_first_order frame_runFactory frame_execModule frame_generateMock
        assms;
      simp add: frame_def)

lemma frame_requireModuleOrMock:
  assumes "\<And>c. preserves (frame b) (rec c)"
  shows "preserves (frame b) (requireModuleOrMock y rec from moduleName)"
  unfolding requireModuleOrMock_def
  by (intro frame_intros frame_first_order frame_requireMock frame_requireModule assms)

lemma frame_run: "preserves (frame b) (run y n c)"
proof (induction n arbitrary: c)
  case 0
  show ?case by (simp add: preserves_def)
next
  case (Suc n)
  show ?case
    by (cases c)
       (simp_all add: frame_requireModule frame_requireMock frame_requireModuleOrMock
          frame_generateMock Suc)
qed

lemma requireModule_run_frame:
  "requireModule y (run y n) from moduleName options s1 = (r, s2) \<Longrightarrow> frame s1 s2"
  using frame_requireModule[of s1 "run y n" y "from" moduleName options, OF frame_run]
    frame_refl[of s1]
  unfolding preserves_def by (metis snd_conv)

lemma mockFromMetadata_regs:
  "mockFromMetadata y md s = (r, s') \<Longrightarrow>
     moduleRegistry s' = moduleRegistry s \<and> mockRegistry s' = mockRegistry s
     \<and> moduleTables s' = moduleTables s \<and> mockTables s' = mockTables s
     \<and> nextAddr s \<le> nextAddr s'"
  by (auto simp: mockFromMetadata_def newObject_def prog_simps split: option.splits sum.splits)

section \<open>The phases of the constructor\<close>











section \<open>Running the example project\<close>

text \<open>The fields of the example, and the equations that evaluate the methods on it.\<close>

lemma ex_sys_simps:
  "pth ex_sys = ex_pathlib" "host ex_sys = ex_host" "rslv ex_sys = ex_resolver" "conf ex_sys = ex_config"
  by (simp_all add: ex_sys_def)

lemma ex_pathlib_simps:
  "path_sep ex_pathlib = ''/''" "path_delimiter ex_pathlib = '':''" "path_dirname ex_pathlib = ex_dirname"
  "path_basename ex_pathlib = ex_basename" "path_extname ex_pathlib = ex_extname"
  "path_normalize ex_pathlib = (\<lambda>p. p)" "path_join ex_pathlib = join_with ''/''"
  "path_relative ex_pathlib = ex_relative"
  by (simp_all add: ex_pathlib_def)

lemma ex_host_simps:
  "resolve_sync ex_host browser name opts = (case map_of ex_node (ro_basedir opts, name) of
                       Some p \<Rightarrow> Inr p | None \<Rightarrow> Inl ex_notFound)"
  "resolve_isCore ex_host name = (name = ''fs'')"
  "nodeModulesPaths ex_host dir mdirs = [Some (dir @ ''/node_modules''), None]"
  "require_resolve ex_host p = Inl ex_notFound"
  "nodePaths ex_host = None"
  "host_require ex_host name = (if name = ''fs'' then Inr (VHost 0) else Inl ex_notFound)"
  "fs_readFileSync ex_host p = Inl ex_notFound"
  "fs_existsSync ex_host p = False"
  "JSON_parse ex_host t = Inl ex_notFound"
  "regex_test ex_host re str = False"
  "regex_replace ex_host re str by = str"
  "transform ex_host filename internal = Inr filename"
  "runScript ex_host scr = (case map_of ex_files scr of
                    Some body \<Rightarrow> Inr body | None \<Rightarrow> Inl ex_notFound)"
  "getMetadata ex_host heap v = Some (MetaConstant v)"
  "generateFromMetadata ex_host md = Inr Map.empty"
  by (simp_all add: ex_host_def)

lemma ex_resolver_simps:
  "haste_map ex_resolver = [''Foo'' \<mapsto> [''g'' \<mapsto> (''/h/Foo.js'', MODULE)]]"
  "haste_mocks ex_resolver = Map.empty"
  "GENERIC_PLATFORM ex_resolver = ''g''"
  "opt_browser ex_resolver = False"
  "opt_defaultPlatform ex_resolver = None"
  "opt_extensions ex_resolver = [''.js'']"
  "opt_hasCoreModules ex_resolver = True"
  "opt_moduleDirectories ex_resolver = [''node_modules'']"
  "opt_moduleNameMapper ex_resolver = None"
  "opt_modulePaths ex_resolver = []"
  "supportsNativePlatform ex_resolver = False"
  by (simp_all add: ex_resolver_def)

lemma ex_config_simps:
  "cfg_rootDir ex_config = ''/proj''" "cfg_automock ex_config = False"
  "cfg_setupFiles ex_config = [''/proj/node_modules/setup/index.js'', ''/proj/setup.js'']"
  "cfg_unmockedModulePathPatterns ex_config = None" "cfg_scriptPreprocessor ex_config = None"
  "cfg_usesBabelJest ex_config = False"
  by (simp_all add: ex_config_def)

lemma ex_state_simps:
  "nextAddr ex_state = 2" "objects ex_state = (\<lambda>a. Map.empty)"
  "moduleObjs ex_state = (\<lambda>a. \<lparr>mod_filename = [], mod_exports = VUndefined,
     mod_children = None, mod_parent = None, mod_paths = None, mod_require = None\<rparr>)"
  "moduleTables ex_state = (\<lambda>a. Map.empty)" "mockTables ex_state = (\<lambda>a. Map.empty)"
  "normalizedIDCache ex_state = Map.empty" "moduleNameCache ex_state = Map.empty"
  "modulePathCache ex_state = Map.empty" "moduleRegistry ex_state = 0" "mockRegistry ex_state = 1"
  "currentlyExecutingModulePath ex_state = []" "isCurrentlyExecutingManualMock ex_state = None"
  "explicitShouldMock ex_state = Map.empty" "mockFactories ex_state = Map.empty"
  "mockMetaDataCache ex_state = Map.empty" "shouldAutoMock ex_state = False"
  "shouldMockModuleCache ex_state = Map.empty"
  "shouldUnmockTransitiveDependenciesCache ex_state = Map.empty"
  "transitiveShouldMock ex_state = Map.empty" "virtualMocks ex_state = Map.empty"
  "unmockList ex_state = None" "unmockRegExpCache ex_state = None"
  "envGlobal ex_state = Some [''spy'' \<mapsto> MockFunction 3]" "mockClearTimers ex_state = Some 0"
  by (simp_all add: ex_state_def)

lemmas ex_simps = ex_sys_simps ex_pathlib_simps ex_host_simps ex_resolver_simps ex_config_simps
  ex_files_def ex_node_def ex_dirname_def ex_basename_def ex_extname_def ex_relative_def
  ex_notFound_def ex_state_simps

lemmas resolver_defs = Let_def truthyS_simps getModule_def getPackage_def NATIVE_PLATFORM_def
  findNodeModule_def isCoreModule_def getMockModule_def resolveStubModuleName_def

lemmas first_order_defs = resolveModule_def cacheModuleName_def normalizeID_def normalizeID_user_def
  Runtime_resolveModule_def getVirtualMockPath_def orEmpty_def requireModule_path_def
  moduleNotFound_def

lemmas exec_defs = requireModule_def requireModule_load_def registerModule_def loadFile_def
  registeredExports_def newObject_def newModule_def execModule_def getModulePaths_def
  Runtime_runScript_def setModuleExports_def typeError_def

lemmas mock_defs = generateMock_def mockFromMetadata_def requireMock_def requireModuleOrMock_def
  shouldMock_def setMockEntry_def runFactory_def newMockTable_def newModuleTable_def

lemmas ctor_defs = constructor_def initFields_def unmockPath_def resetModuleRegistry_def
  mockClear_def str_includes_def NODE_MODULES_def sublist_code requireSetupFiles.simps

text \<open>
  The circular pair: requiring \<open>a.js\<close> returns its exports object (address 2) with
  \<open>v = 2\<close>; \<open>b.js\<close>, which ran in the middle, saw \<open>v = 1\<close> in the same object and stored
  it as \<open>seen\<close>, which \<open>a.js\<close> then read back as \<open>w\<close>.
\<close>

lemma circular_require_example:
  "fst (requireModule ex_sys (run ex_sys (Suc (Suc 0))) ''/proj/a.js'' None None ex_state)
     = Returns (VObj 2)"
  "objects (snd (requireModule ex_sys (run ex_sys (Suc (Suc 0))) ''/proj/a.js'' None None ex_state)) 2
     = [''v'' \<mapsto> VNum 2, ''w'' \<mapsto> VNum 1]"
  "objects (snd (requireModule ex_sys (run ex_sys (Suc (Suc 0))) ''/proj/a.js'' None None ex_state)) 4
     = [''seen'' \<mapsto> VNum 1]"
  by (simp_all add: ex_simps resolver_defs first_order_defs exec_defs prog_simps fun_upd_twist)

text \<open>
  Automock generation for \<open>a.js\<close> returns a new mock. For \<open>t.js\<close>, whose body throws,
  the error leaves \<open>_generateMock\<close> before the two restoring assignments: the registries in
  force stay the temporary ones (addresses 4 and 3, not 0 and 1).
\<close>

lemma generateMock_example:
  "fst (generateMock ex_sys (run ex_sys (Suc (Suc 0))) ''/proj/x.js'' ''./a'' ex_state)
     = Returns (VObj 9)"
  by (simp add: ex_simps resolver_defs first_order_defs exec_defs mock_defs prog_simps)

lemma generateMock_error_example:
  "fst (generateMock ex_sys (run ex_sys 0) ''/proj/x.js'' ''./t'' ex_state)
     = Throws (JSError ''Error'' ''boom'' None)"
  "moduleRegistry (snd (generateMock ex_sys (run ex_sys 0) ''/proj/x.js'' ''./t'' ex_state)) = 4"
  "mockRegistry (snd (generateMock ex_sys (run ex_sys 0) ''/proj/x.js'' ''./t'' ex_state)) = 3"
  by (simp_all add: ex_simps resolver_defs first_order_defs exec_defs mock_defs prog_simps)

text \<open>Construction with the two setup files succeeds.\<close>

lemma constructor_example:
  "fst (constructor ex_sys (run ex_sys (Suc (Suc (Suc 0)))) ex_state) = Returns ()"
  by (simp add: ex_simps resolver_defs first_order_defs exec_defs ctor_defs prog_simps
        newMockTable_def newModuleTable_def)

section \<open>The resolver\<close>




text \<open>
  Claim C8. \<open>resolveModule\<close> throws exactly when every step fails (no cache hit, no haste
  module, node resolution skipped or without result, no haste package or a package path
  that \<open>require.resolve\<close> rejects); the state is then unchanged and the error has
  \<open>code = "MODULE_NOT_FOUND"\<close> and the message
  \<open>Cannot find module '<name>' from '<r>'\<close>, where \<open>r\<close> is the path of \<open>from\<close> relative to
  \<open>dirname(from)\<close>, or \<open>.\<close> when that is empty.
\<close>

theorem resolveModule_not_found:
  "resolveModule y from moduleName options s = (Throws e, s') \<longleftrightarrow>
     (\<not> truthyS (moduleNameCache s (path_dirname (pth y) from @ path_delimiter (pth y) @ moduleName))
      \<and> \<not> truthyS (getModule y moduleName None)
      \<and> (options = Some True
          \<or> \<not> truthyS (findNodeModule y moduleName (path_dirname (pth y) from)
                 (opt_browser (rslv y)) (opt_extensions (rslv y))
                 (opt_moduleDirectories (rslv y)) (Some (opt_modulePaths (rslv y)))))
      \<and> (\<not> truthyS (getPackage y (hd (split_on CHR ''/'' moduleName)))
          \<or> (\<exists>err. require_resolve (host y)
                 (path_join (pth y)
                    (path_dirname (pth y) (the (getPackage y (hd (split_on CHR ''/'' moduleName))))
                       # tl (split_on CHR ''/'' moduleName))) = Inl err))
      \<and> s' = s
      \<and> e = JSError ''Error''
            (''Cannot find module '' @ [CHR 0x27] @ moduleName @ [CHR 0x27] @ '' from ''
               @ [CHR 0x27]
               @ (if path_relative (pth y) (path_dirname (pth y) from) from = [] then ''.''
                  else path_relative (pth y) (path_dirname (pth y) from) from)
               @ [CHR 0x27])
            (Some ''MODULE_NOT_FOUND''))"
  (is "?run = _ \<longleftrightarrow> \<not> ?hit \<and> \<not> ?haste \<and> (?skip \<or> \<not> ?node) \<and> (\<not> ?pkg \<or> ?noResolve) \<and> _ \<and> _")
proof -
  obtain first parts where sp: "split_on CHR ''/'' moduleName = first # parts"
    using split_on_nonempty[of "CHR ''/''" moduleName] by (cases "split_on CHR ''/'' moduleName") auto
  show ?thesis
  proof (cases ?hit)
    case True
    then show ?thesis by (simp add: resolveModule_def Let_def prog_simps)
  next
    case miss: False
    show ?thesis
    proof (cases ?haste)
      case True
      with miss show ?thesis
        by (simp add: resolveModule_def Let_def prog_simps cacheModuleName_def)
    next
      case noHaste: False
      show ?thesis
      proof (cases "?skip \<or> \<not> ?node")
        case False
        with miss noHaste show ?thesis
          by (cases options) (auto simp: resolveModule_def Let_def prog_simps cacheModuleName_def)
      next
        case noNode: True
        show ?thesis
        proof (cases "\<not> ?pkg")
          case True
          with miss noHaste noNode sp show ?thesis
            by (cases options)
               (auto simp: resolveModule_def Let_def prog_simps cacheModuleName_def
                  moduleNotFound_def truthyS_simps)
        next
          case False
          with miss noHaste noNode sp show ?thesis
            by (cases options;
                cases "require_resolve (host y)
                  (path_join (pth y) (path_dirname (pth y) (the (getPackage y first)) # parts))")
               (auto simp: resolveModule_def Let_def prog_simps cacheModuleName_def
                  moduleNotFound_def truthyS_simps)
        qed
      qed
    qed
  qed
qed

theorem resolveModule_not_found_witness:
  "resolveModule ex_sys ''/proj/src/x.js'' ''nope'' None ex_state
     = (Throws (JSError ''Error''
          (''Cannot find module '' @ [CHR 0x27] @ ''nope'' @ [CHR 0x27] @ '' from ''
             @ [CHR 0x27] @ ''x.js'' @ [CHR 0x27])
          (Some ''MODULE_NOT_FOUND'')), ex_state)"
  using resolveModule_not_found[of ex_sys "''/proj/src/x.js''" "''nope''" None ex_state
      "JSError ''Error''
          (''Cannot find module '' @ [CHR 0x27] @ ''nope'' @ [CHR 0x27] @ '' from ''
             @ [CHR 0x27] @ ''x.js'' @ [CHR 0x27])
          (Some ''MODULE_NOT_FOUND'')" ex_state]
  by (simp add: ex_simps resolver_defs)

section \<open>The module registry\<close>

text \<open>
  Claim C7. \<open>resetModuleRegistry\<close> returns normally and leaves the runtime with two new,
  empty registry tables, while the mock factories, the explicit should-mock flags, the
  virtual mocks and the unmock regex are what they were.
\<close>

theorem resetModuleRegistry_frame:
  "fst (resetModuleRegistry s) = Returns ()
   \<and> mockRegistry (snd (resetModuleRegistry s)) = nextAddr s
   \<and> moduleRegistry (snd (resetModuleRegistry s)) = Suc (nextAddr s)
   \<and> mockTables (snd (resetModuleRegistry s)) (mockRegistry (snd (resetModuleRegistry s))) = Map.empty
   \<and> moduleTables (snd (resetModuleRegistry s)) (moduleRegistry (snd (resetModuleRegistry s))) = Map.empty
   \<and> mockFactories (snd (resetModuleRegistry s)) = mockFactories s
   \<and> explicitShouldMock (snd (resetModuleRegistry s)) = explicitShouldMock s
   \<and> virtualMocks (snd (resetModuleRegistry s)) = virtualMocks s
   \<and> unmockList (snd (resetModuleRegistry s)) = unmockList s"
  by (simp add: resetModuleRegistry_def prog_simps newMockTable_def newModuleTable_def
      split: option.splits)

theorem resetModuleRegistry_frame_witness:
  "fst (resetModuleRegistry ex_state) = Returns ()
   \<and> mockRegistry (snd (resetModuleRegistry ex_state)) = 2
   \<and> moduleRegistry (snd (resetModuleRegistry ex_state)) = 3
   \<and> mockTables (snd (resetModuleRegistry ex_state)) 2 = Map.empty
   \<and> moduleTables (snd (resetModuleRegistry ex_state)) 3 = Map.empty
   \<and> mockFactories (snd (resetModuleRegistry ex_state)) = Map.empty
   \<and> unmockList (snd (resetModuleRegistry ex_state)) = None"
  using resetModuleRegistry_frame[of ex_state] by (auto simp add: ex_state_simps)



text \<open>
  Claim C9. With no module name (absent or empty), \<open>_resolveModule(from, to)\<close> is \<open>from\<close>,
  and \<open>requireModule(from)\<close> chooses the path \<open>from\<close> itself: the only state it touches on
  the way is \<open>normalizedIDCache\<close> (the resolver's name cache is not, no resolution takes
  place), and the call is the registry discipline at the key \<open>from\<close>, which for an
  unregistered \<open>from\<close> installs a module object with \<open>filename = from\<close> under that key and
  loads it.
\<close>

theorem requireModule_without_name:
  assumes "moduleName = None \<or> moduleName = Some []"
  shows "Runtime_resolveModule y from moduleName s = (Returns from, s)
     \<and> requireModule_path y from moduleName options s
         = (Returns (Inr from), snd (normalizeID y from moduleName s))
     \<and> snd (normalizeID y from moduleName s)
         = s\<lparr>normalizedIDCache := normalizedIDCache (snd (normalizeID y from moduleName s))\<rparr>
     \<and> requireModule y rec from moduleName options s
         = requireModule_load y rec from options (snd (normalizeID y from moduleName s))
     \<and> (\<forall>s0. moduleTables s0 (moduleRegistry s0) from = None \<longrightarrow>
           moduleTables (snd (registerModule from s0)) (moduleRegistry s0) from
             = Some (Suc (nextAddr s0))
           \<and> mod_filename (moduleObjs (snd (registerModule from s0)) (Suc (nextAddr s0))) = from
           \<and> requireModule_load y rec from options s0
               = andThen (loadFile y rec from (Suc (nextAddr s0)) options)
                   (\<lambda>_. registeredExports from) (snd (registerModule from s0)))"
proof -
  have f: "\<not> truthyS moduleName" using assms by (auto simp: truthyS_simps)
  have p: "requireModule_path y from moduleName options s
         = (Returns (Inr from), snd (normalizeID y from moduleName s))"
    by (rule requireModule_path_no_name[OF f])
  show ?thesis
    using f normalizeID_no_name(2)[OF f, of y "from" s]
    by (simp add: p Runtime_resolveModule_def prog_simps(1) requireModule_def prog_simps(5) p
          registerModule_result requireModule_load_unregistered)
qed

theorem requireModule_without_name_witness:
  "Runtime_resolveModule ex_sys ''/proj/a.js'' None ex_state = (Returns ''/proj/a.js'', ex_state)
   \<and> fst (requireModule_path ex_sys ''/proj/a.js'' None None ex_state) = Returns (Inr ''/proj/a.js'')
   \<and> moduleNameCache (snd (requireModule_path ex_sys ''/proj/a.js'' None None ex_state)) = Map.empty
   \<and> mod_filename (moduleObjs (snd (registerModule ''/proj/a.js'' ex_state)) 3) = ''/proj/a.js''"
proof -
  note t = requireModule_without_name[of None ex_sys "''/proj/a.js''" ex_state None "run ex_sys 0"]
  have u: "moduleTables ex_state (moduleRegistry ex_state) ''/proj/a.js'' = None"
    by (simp add: ex_state_simps)
  have 1: "Runtime_resolveModule ex_sys ''/proj/a.js'' None ex_state = (Returns ''/proj/a.js'', ex_state)"
    using t by simp
  have 2: "fst (requireModule_path ex_sys ''/proj/a.js'' None None ex_state) = Returns (Inr ''/proj/a.js'')"
    using t by simp
  have "snd (requireModule_path ex_sys ''/proj/a.js'' None None ex_state)
          = ex_state\<lparr>normalizedIDCache :=
              normalizedIDCache (snd (normalizeID ex_sys ''/proj/a.js'' None ex_state))\<rparr>"
    using t by simp
  then have 3: "moduleNameCache (snd (requireModule_path ex_sys ''/proj/a.js'' None None ex_state))
          = Map.empty"
    by (simp add: ex_state_simps)
  have 4: "mod_filename (moduleObjs (snd (registerModule ''/proj/a.js'' ex_state)) 3) = ''/proj/a.js''"
    using t[THEN conjunct2, THEN conjunct2, THEN conjunct2, THEN conjunct2, THEN spec,
        of ex_state] u
    by (simp add: ex_state_simps)
  show ?thesis using 1 2 3 4 by simp
qed

text \<open>
  Claim C6, as amended. Let a \<open>requireModule\<close> that chose the path \<open>p\<close> have returned
  \<open>v\<close>, and let a second \<open>requireModule\<close> choose \<open>p\<close> in a state in which the registry in
  force holds the module object that the first call left for \<open>p\<close>, with the same
  \<open>exports\<close>: the state the first call left, or any later one that has kept the entry.
  Then the second call returns the same value \<open>v\<close>, for every way of answering re-entrant
  calls, and its whole effect on the state is that of choosing the path, which changes the
  two memo tables of name resolution at most: no body is run again. The absence of a
  \<open>resetModuleRegistry\<close> in between is not enough for the entry to be kept.
\<close>

theorem requireModule_twice:
  assumes "requireModule y rec from moduleName options s = (Returns v, s1)"
    and "fst (requireModule_path y from moduleName options s) = Returns (Inr p)"
    and "\<forall>m. moduleTables s1 (moduleRegistry s1) p = Some m \<longrightarrow>
           moduleTables s2 (moduleRegistry s2) p = Some m
           \<and> mod_exports (moduleObjs s2 m) = mod_exports (moduleObjs s1 m)"
    and "fst (requireModule_path y from' moduleName' options' s2) = Returns (Inr p)"
  shows "requireModule y rec' from' moduleName' options' s2
           = (Returns v, snd (requireModule_path y from' moduleName' options' s2))
     \<and> sameButCaches s2 (snd (requireModule_path y from' moduleName' options' s2))"
proof -
  obtain s0 where p0: "requireModule_path y from moduleName options s = (Returns (Inr p), s0)"
    using assms(2) by (cases "requireModule_path y from moduleName options s") auto
  have "requireModule_load y rec p options s0 = (Returns v, s1)"
    using assms(1) by (simp add: requireModule_def prog_simps(5) p0)
  then obtain m where m: "moduleTables s1 (moduleRegistry s1) p = Some m"
      "v = mod_exports (moduleObjs s1 m)"
    using requireModule_load_returns by blast
  with assms(3) have m2: "moduleTables s2 (moduleRegistry s2) p = Some m"
      "mod_exports (moduleObjs s2 m) = v"
    by simp_all
  obtain s3 where p2: "requireModule_path y from' moduleName' options' s2 = (Returns (Inr p), s3)"
    using assms(4) by (cases "requireModule_path y from' moduleName' options' s2") auto
  have same: "sameButCaches s2 s3"
    using requireModule_path_same[of s2 y from' moduleName' options'] p2 by simp
  have "moduleTables s3 (moduleRegistry s3) p = Some m"
    using m2(1) sameButCaches_fields[OF same] by simp
  then have "requireModule_load y rec' p options' s3 = (Returns (mod_exports (moduleObjs s3 m)), s3)"
    by (rule requireModule_load_registered)
  then show ?thesis
    using same m2(2) sameButCaches_fields[OF same]
    by (simp add: requireModule_def prog_simps(5) p2)
qed

theorem requireModule_twice_witness:
  "fst (requireModule ex_sys (run ex_sys (Suc (Suc 0))) ''/proj/a.js'' None None ex_state)
     = Returns (VObj 2)
   \<and> fst (requireModule ex_sys (run ex_sys 0) ''/proj/a.js'' None None
          (snd (requireModule ex_sys (run ex_sys (Suc (Suc 0))) ''/proj/a.js'' None None ex_state)))
     = Returns (VObj 2)"
proof -
  let ?s1 = "snd (requireModule ex_sys (run ex_sys (Suc (Suc 0))) ''/proj/a.js'' None None ex_state)"
  have first: "requireModule ex_sys (run ex_sys (Suc (Suc 0))) ''/proj/a.js'' None None ex_state
        = (Returns (VObj 2), ?s1)"
    using circular_require_example(1) by (metis prod.collapse)
  have p1: "fst (requireModule_path ex_sys ''/proj/a.js'' None None ex_state)
        = Returns (Inr ''/proj/a.js'')"
    by (simp add: requireModule_path_no_name truthyS_simps)
  have p2: "fst (requireModule_path ex_sys ''/proj/a.js'' None None ?s1)
        = Returns (Inr ''/proj/a.js'')"
    by (simp add: requireModule_path_no_name truthyS_simps)
  have later: "\<forall>m. moduleTables ?s1 (moduleRegistry ?s1) ''/proj/a.js'' = Some m \<longrightarrow>
           moduleTables ?s1 (moduleRegistry ?s1) ''/proj/a.js'' = Some m
           \<and> mod_exports (moduleObjs ?s1 m) = mod_exports (moduleObjs ?s1 m)"
    by simp
  show ?thesis
    using requireModule_twice[OF first p1 later p2, of "run ex_sys 0"] circular_require_example(1)
    by simp
qed

text \<open>The claim as stated fails. \<open>requireModule\<close> of \<open>a.js\<close> returns the object at
  address 2. Then \<open>requireMock('./t')\<close> generates an automock of \<open>t.js\<close>, whose body
  throws: the error leaves \<open>_generateMock\<close> with its temporary empty registries in force.
  No \<open>resetModuleRegistry\<close> was called, and \<open>requireModule\<close> of \<open>a.js\<close> runs the body
  again and returns another object.\<close>

theorem requireModule_twice_counterexample:
  "fst (requireModule ex_sys (run ex_sys (Suc (Suc 0))) ''/proj/a.js'' None None ex_state)
     = Returns (VObj 2)
   \<and> fst (requireMock ex_sys (run ex_sys (Suc (Suc 0))) ''/proj/a.js'' ''./t''
            (snd (requireModule ex_sys (run ex_sys (Suc (Suc 0))) ''/proj/a.js'' None None ex_state)))
        = Throws (JSError ''Error'' ''boom'' None)
   \<and> fst (requireModule ex_sys (run ex_sys (Suc (Suc 0))) ''/proj/a.js'' None None
            (snd (requireMock ex_sys (run ex_sys (Suc (Suc 0))) ''/proj/a.js'' ''./t''
               (snd (requireModule ex_sys (run ex_sys (Suc (Suc 0))) ''/proj/a.js'' None None ex_state)))))
        = Returns (VObj 11)"
  by (simp add: ex_simps resolver_defs first_order_defs exec_defs mock_defs prog_simps fun_upd_twist)

section \<open>Executing a module\<close>

text \<open>
  Claim C4, as amended. \<open>_execModule\<close> restores the currently-executing module path and the
  currently-executing manual mock to their values at entry whenever it returns normally.
  An error exit restores nothing: when the transformer raises, the error is passed on and
  both are left at the \<open>filename\<close> of the module.
\<close>

theorem execModule_restores_on_return:
  "(\<forall>u s'. execModule y rec localModule options s = (Returns u, s') \<longrightarrow>
       currentlyExecutingModulePath s' = currentlyExecutingModulePath s
       \<and> isCurrentlyExecutingManualMock s' = isCurrentlyExecutingManualMock s)
   \<and> (\<forall>e. envGlobal s \<noteq> None
         \<and> transform (host y) (mod_filename (moduleObjs s localModule)) (options = Some True) = Inl e
        \<longrightarrow> fst (execModule y rec localModule options s) = Throws e
            \<and> currentlyExecutingModulePath (snd (execModule y rec localModule options s))
                = mod_filename (moduleObjs s localModule)
            \<and> isCurrentlyExecutingManualMock (snd (execModule y rec localModule options s))
                = Some (mod_filename (moduleObjs s localModule)))"
  using execModule_returns[of y rec localModule options s]
    execModule_transform_error[of s y localModule options _ rec]
  by blast

theorem execModule_restores_on_return_witness:
  "fst (execModule ex_sys (run ex_sys 0) 3 None
          (snd (registerModule ''/proj/node_modules/setup/index.js'' ex_state))) = Returns ()
   \<and> currentlyExecutingModulePath (snd (execModule ex_sys (run ex_sys 0) 3 None
          (snd (registerModule ''/proj/node_modules/setup/index.js'' ex_state)))) = []
   \<and> isCurrentlyExecutingManualMock (snd (execModule ex_sys (run ex_sys 0) 3 None
          (snd (registerModule ''/proj/node_modules/setup/index.js'' ex_state)))) = None"
proof -
  let ?s = "snd (registerModule ''/proj/node_modules/setup/index.js'' ex_state)"
  have f: "fst (execModule ex_sys (run ex_sys 0) 3 None ?s) = Returns ()"
    by (simp add: ex_simps resolver_defs exec_defs prog_simps)
  then have e: "execModule ex_sys (run ex_sys 0) 3 None ?s
      = (Returns (), snd (execModule ex_sys (run ex_sys 0) 3 None ?s))"
    by (metis prod.collapse)
  have p: "currentlyExecutingModulePath ?s = [] \<and> isCurrentlyExecutingManualMock ?s = None"
    by (simp add: registerModule_def newObject_def newModule_def prog_simps ex_state_simps)
  show ?thesis
    using execModule_restores_on_return[of ex_sys "run ex_sys 0" 3 None ?s, THEN conjunct1,
        THEN spec, THEN spec, THEN mp, OF e] f p
    by simp
qed

text \<open>The claim as stated fails: the body of \<open>t.js\<close> throws, and both pointers stay at
  \<open>/proj/t.js\<close> although they were the empty string and \<open>null\<close> at entry.\<close>

theorem execModule_error_counterexample:
  "fst (execModule ex_sys (run ex_sys 0) 3 None ex_state_t) = Throws (JSError ''Error'' ''boom'' None)
   \<and> currentlyExecutingModulePath ex_state_t = []
   \<and> currentlyExecutingModulePath (snd (execModule ex_sys (run ex_sys 0) 3 None ex_state_t))
       = ''/proj/t.js''
   \<and> isCurrentlyExecutingManualMock ex_state_t = None
   \<and> isCurrentlyExecutingManualMock (snd (execModule ex_sys (run ex_sys 0) 3 None ex_state_t))
       = Some ''/proj/t.js''"
  by (simp add: ex_state_t_def ex_simps resolver_defs exec_defs prog_simps)

section \<open>The mock decision\<close>

text \<open>
  Claim C3, as amended. For a core module \<open>n\<close>, \<open>_shouldMock(from, n)\<close> returns true
  exactly when the virtual path of \<open>n\<close> is in the virtual-mock set or the explicit flag of
  its id is true; otherwise, whatever automock, the caches and the transitive flags say, it
  returns false.
\<close>

theorem shouldMock_core:
  assumes "isCoreModule y n"
  shows "\<exists>moduleID. fst (normalizeID y from (Some n) s) = Returns moduleID
       \<and> fst (shouldMock y from n s)
           = Returns (virtualMocks s (getVirtualMockPath y from n) \<noteq> None
                      \<or> explicitShouldMock s moduleID = Some True)"
proof -
  obtain moduleID where "fst (normalizeID y from (Some n) s) = Returns moduleID"
    using normalizeID_core[OF assms] by blast
  then obtain s0 where n: "normalizeID y from (Some n) s = (Returns moduleID, s0)"
    by (cases "normalizeID y from (Some n) s") auto
  have same: "sameButCaches s s0" using normalizeID_same[of s y "from" "Some n"] n by simp
  have "fst (shouldMock y from n s)
           = Returns (virtualMocks s (getVirtualMockPath y from n) \<noteq> None
                      \<or> explicitShouldMock s moduleID = Some True)"
    using assms sameButCaches_fields[OF same]
    by (cases "explicitShouldMock s moduleID")
       (auto simp: shouldMock_def Let_def prog_simps n)
  with n show ?thesis by simp
qed

theorem shouldMock_core_witness:
  "isCoreModule ex_sys ''fs''
   \<and> fst (shouldMock ex_sys ''/proj/a.js'' ''fs'' (ex_state\<lparr>shouldAutoMock := True\<rparr>)) = Returns False"
proof -
  have c: "isCoreModule ex_sys ''fs''" by (simp add: ex_simps resolver_defs)
  show ?thesis
    using shouldMock_core[OF c, of "''/proj/a.js''" "ex_state\<lparr>shouldAutoMock := True\<rparr>"] c
    by (auto simp: ex_state_simps)
qed

text \<open>The claim as stated fails: after \<open>jest.mock('fs')\<close> in a body of \<open>a.js\<close>,
  \<open>_shouldMock('/proj/a.js', 'fs')\<close> is true for the core module \<open>fs\<close>.\<close>

theorem shouldMock_core_counterexample:
  "isCoreModule ex_sys ''fs''
   \<and> fst (shouldMock ex_sys ''/proj/a.js'' ''fs'' ex_state_mocked) = Returns True"
  by (auto simp add: ex_state_mocked_def ex_frame_def ex_simps resolver_defs first_order_defs
        shouldMock_def prog_simps)

section \<open>Automock generation\<close>

text \<open>
  Claim C5. When \<open>_generateMock(from, name)\<close> returns, \<open>this._moduleRegistry\<close> and
  \<open>this._mockRegistry\<close> are the tables they were before the call, and every registry table
  that existed before the call, these two among them, has the contents it had: the modules
  evaluated for the introspection were registered in tables allocated during the call.
  The bodies that run in between are arbitrary (any nesting of requires, mocks, resets and
  further automocks, to any depth \<open>n\<close>). The state is one in which the two registry
  pointers are allocated addresses.
\<close>

theorem generateMock_restores_registries:
  assumes "moduleRegistry s < nextAddr s" and "mockRegistry s < nextAddr s"
    and "generateMock y (run y n) from moduleName s = (Returns v, s')"
  shows "moduleRegistry s' = moduleRegistry s \<and> mockRegistry s' = mockRegistry s
     \<and> (\<forall>a. a < nextAddr s \<longrightarrow> moduleTables s' a = moduleTables s a)
     \<and> (\<forall>a. a < nextAddr s \<longrightarrow> mockTables s' a = mockTables s a)"
proof -
  from assms(3) obtain p sa where
    r: "Runtime_resolveModule y from (Some moduleName) s = (Returns p, sa)"
    unfolding generateMock_def andThen_Returns_iff by blast
  note same = sameButCaches_fields[OF Runtime_resolveModule_same[OF r]]
  show ?thesis
  proof (cases "mockMetaDataCache sa p \<noteq> None")
    case True
    with assms(3) r have "mockFromMetadata y (the (mockMetaDataCache sa p)) sa = (Returns v, s')"
      by (simp add: generateMock_def prog_simps)
    from mockFromMetadata_regs[OF this] same show ?thesis by simp
  next
    case False
    from assms(3) r False obtain s1 moduleExports s2 s3 md where
      req: "requireModule y (run y n) from (Some moduleName) None s1 = (Returns moduleExports, s2)"
      and s1: "nextAddr s1 = Suc (Suc (Suc (nextAddr sa)))"
        "moduleRegistry s1 = Suc (Suc (nextAddr sa))" "mockRegistry s1 = Suc (nextAddr sa)"
        "moduleTables s1 = (moduleTables sa)(Suc (Suc (nextAddr sa)) := Map.empty)"
        "mockTables s1 = (mockTables sa)(Suc (nextAddr sa) := Map.empty)"
      and fin: "mockFromMetadata y md s3 = (Returns v, s')"
      and s3: "moduleRegistry s3 = moduleRegistry sa" "mockRegistry s3 = mockRegistry sa"
        "moduleTables s3 = moduleTables s2" "mockTables s3 = mockTables s2"
        "nextAddr s3 = nextAddr s2"
      by (auto simp: generateMock_def andThen_Returns_iff prim_Returns_iff newObject_Returns_iff
            newTable_Returns_iff split: if_splits)
    have fr: "frame s1 s2" by (rule requireModule_run_frame[OF req])
    from mockFromMetadata_regs[OF fin] s1 s3 same fr assms(1,2) show ?thesis
      by (auto simp: frame_def)
  qed
qed

theorem generateMock_restores_registries_witness:
  "moduleRegistry ex_state < nextAddr ex_state \<and> mockRegistry ex_state < nextAddr ex_state
   \<and> fst (generateMock ex_sys (run ex_sys (Suc (Suc 0))) ''/proj/x.js'' ''./a'' ex_state)
       = Returns (VObj 9)
   \<and> moduleRegistry (snd (generateMock ex_sys (run ex_sys (Suc (Suc 0))) ''/proj/x.js'' ''./a''
          ex_state)) = 0
   \<and> moduleTables (snd (generateMock ex_sys (run ex_sys (Suc (Suc 0))) ''/proj/x.js'' ''./a''
          ex_state)) 0 = Map.empty
   \<and> mockTables (snd (generateMock ex_sys (run ex_sys (Suc (Suc 0))) ''/proj/x.js'' ''./a''
          ex_state)) 1 = Map.empty"
proof -
  let ?g = "generateMock ex_sys (run ex_sys (Suc (Suc 0))) ''/proj/x.js'' ''./a'' ex_state"
  have w: "moduleRegistry ex_state < nextAddr ex_state" "mockRegistry ex_state < nextAddr ex_state"
    by (simp_all add: ex_state_simps)
  have e: "?g = (Returns (VObj 9), snd ?g)"
    using generateMock_example by (metis prod.collapse)
  from generateMock_restores_registries[OF w e] w generateMock_example show ?thesis
    by (simp add: ex_state_simps)
qed

section \<open>Construction\<close>



end
